theory Spec2Isabelle
  imports Complex_Main
begin

section \<open>Conventions of the embedding\<close>

text \<open>
  Python floats are modelled as \<^typ>\<open>real\<close>: every comparison of the source is the same
  comparison on reals, and a decimal literal of the source stands for the decimal it
  spells. Rounding of float arithmetic, NaN and the infinities are outside the model.
  The one place where the binary float shows is the printing of a number with a fixed
  count of decimals: there the model first takes the binary64 value nearest to the real
  (\<open>binary64\<close> below), as Python prints the digits of the float, not of the decimal.
  Python dicts are maps, objects with mutable fields are records threaded through the
  functions that mutate them, and a raised exception is the \<open>Inl\<close> branch of a sum.

  Python strings are \<^typ>\<open>string\<close>; the few non-ASCII characters of the source's
  literals stand as their UTF-8 bytes, named once here.
\<close>

definition u_Psi :: string where
  "u_Psi = [CHR 0xCE, CHR 0xA8]"

definition u_arrow :: string where
  "u_arrow = [CHR 0xE2, CHR 0x86, CHR 0x92]"

definition u_rsquo :: string where
  "u_rsquo = [CHR 0xE2, CHR 0x80, CHR 0x99]"

definition u_mdash :: string where
  "u_mdash = [CHR 0xE2, CHR 0x80, CHR 0x94]"

definition u_middot :: string where
  "u_middot = [CHR 0xC2, CHR 0xB7]"

section \<open>c\_phase\_runtime.py: the crisis state machine\<close>

record PsiState =
  psi_value :: real
  gradient :: real

text \<open>
  \<open>_make_alert\<close> reads \<open>datetime.utcnow()\<close> twice, once for the id and once for the
  timestamp. The two readings are an input of the model. The id is the string
  \<open>ALERT-\<close> followed by the first reading and the timestamp is the ISO form of the
  second; the record keeps the readings themselves.
\<close>

record Clock =
  utcnow_id :: real
  utcnow_ts :: real

record CrisisAlert =
  alert_id :: real
  alert_timestamp :: real
  alert_psi :: real
  alert_dpsi_dt :: real
  reason :: string
  autonomous_action :: bool
  human_required :: bool
  consent_verified :: bool
  reviewed_by_human :: bool

record CPhaseRuntime =
  crisis_turns :: nat
  recovery_turns :: nat
  active :: bool
  turn_counter :: nat

definition CRISIS_THRESHOLD :: real where
  "CRISIS_THRESHOLD = 0.05"

definition EXIT_THRESHOLD :: real where
  "EXIT_THRESHOLD = 0.10"

definition MIN_SUSTAINED :: nat where
  "MIN_SUSTAINED = 2"

definition RESTORE_TURNS :: nat where
  "RESTORE_TURNS = 3"

text \<open>\<open>CPhaseRuntime.__init__\<close>\<close>

definition CPhaseRuntime_init :: CPhaseRuntime where
  "CPhaseRuntime_init =
     \<lparr>crisis_turns = 0, recovery_turns = 0, active = False, turn_counter = 0\<rparr>"

definition make_alert :: "Clock \<Rightarrow> PsiState \<Rightarrow> string \<Rightarrow> CrisisAlert" where
  "make_alert clk psi rsn =
     \<lparr>alert_id = utcnow_id clk,
      alert_timestamp = utcnow_ts clk,
      alert_psi = psi_value psi,
      alert_dpsi_dt = gradient psi,
      reason = rsn,
      autonomous_action = False,
      human_required = True,
      consent_verified = False,
      reviewed_by_human = False\<rparr>"

definition detect ::
  "CPhaseRuntime \<Rightarrow> Clock \<Rightarrow> PsiState \<Rightarrow> bool \<Rightarrow> CrisisAlert option \<times> CPhaseRuntime" where
  "detect self clk psi hard_flag =
     (if hard_flag \<or> psi_value psi < CRISIS_THRESHOLD then
        (let self1 = self\<lparr>crisis_turns := crisis_turns self + 1\<rparr> in
         if crisis_turns self1 \<ge> MIN_SUSTAINED \<and> \<not> active self1 then
           (Some (make_alert clk psi (u_Psi @ '' below threshold or hard flag'')),
            self1\<lparr>active := True\<rparr>)
         else (None, self1))
      else (None, self\<lparr>crisis_turns := 0\<rparr>))"

definition beats :: "string list" where
  "beats =
     [''GROUND '' @ u_arrow @ '' 'I'' @ u_rsquo @ ''m here with you. Breathe''
        @ u_mdash @ ''slow in, slow out.'' @ [CHR 0x27],
      ''VALIDATE '' @ u_arrow @ '' 'This feels heavy. That'' @ u_rsquo
        @ ''s understandable.'' @ [CHR 0x27],
      ''TINY CONTROL '' @ u_arrow @ '' 'Choose one: sit '' @ u_middot
        @ '' drink water '' @ u_middot @ '' step outside.'' @ [CHR 0x27],
      ''BRIDGE TO CARE '' @ u_arrow @ '' 'There'' @ u_rsquo
        @ ''s a 24/7 counselor at 988. Want me to connect you?'' @ [CHR 0x27]]"

definition deescalate :: "CPhaseRuntime \<Rightarrow> string \<times> CPhaseRuntime" where
  "deescalate self =
     (beats ! (turn_counter self mod 4),
      self\<lparr>turn_counter := turn_counter self + 1\<rparr>)"

definition check_exit :: "CPhaseRuntime \<Rightarrow> PsiState \<Rightarrow> bool \<Rightarrow> bool \<times> CPhaseRuntime" where
  "check_exit self psi hard_flag =
     (if hard_flag then (False, self\<lparr>recovery_turns := 0\<rparr>)
      else if psi_value psi \<ge> EXIT_THRESHOLD then
        (let self1 = self\<lparr>recovery_turns := recovery_turns self + 1\<rparr> in
         if recovery_turns self1 \<ge> RESTORE_TURNS then
           (True, self1\<lparr>active := False, recovery_turns := 0,
                        crisis_turns := 0, turn_counter := 0\<rparr>)
         else (False, self1))
      else (False, self\<lparr>recovery_turns := 0\<rparr>))"

text \<open>
  The dict that \<open>step\<close> returns: the key \<open>tier\<close> and the key \<open>message\<close> are always
  there (the message may be Python's \<open>None\<close>), the key \<open>alert\<close> only when an alert was
  made, which is \<open>None\<close> of the option here.
\<close>

record StepResult =
  tier :: string
  message :: "string option"
  alert :: "CrisisAlert option"

definition step ::
  "CPhaseRuntime \<Rightarrow> Clock \<Rightarrow> PsiState \<Rightarrow> bool \<Rightarrow> StepResult \<times> CPhaseRuntime" where
  "step self clk psi hard_flag =
     (let (al, self1) = detect self clk psi hard_flag;
          tier0 = (if active self1 then ''SAFETY'' else ''NORMAL'')
      in case al of
           Some a \<Rightarrow>
             (let (msg, self2) = deescalate self1
              in (\<lparr>tier = tier0, message = Some msg, alert = Some a\<rparr>, self2))
         | None \<Rightarrow>
             if active self1 then
               (let (msg, self2) = deescalate self1;
                    (ex, self3) = check_exit self2 psi hard_flag
                in if ex then
                     (\<lparr>tier = ''COHERENCE'',
                       message = Some ''Stability restored. Resuming normal reasoning.'',
                       alert = None\<rparr>, self3)
                   else (\<lparr>tier = tier0, message = Some msg, alert = None\<rparr>, self3))
             else (\<lparr>tier = tier0, message = None, alert = None\<rparr>, self1))"

text \<open>
  A sequence of turns, each one call of \<open>step\<close> on the same machine, as the loop of the
  module's demo block makes them: \<open>final\<close> is the machine after the turns and
  \<open>results\<close> the dicts returned, in order.
\<close>

record Turn =
  turn_clock :: Clock
  turn_psi :: PsiState
  turn_hard_flag :: bool

definition step_turn :: "CPhaseRuntime \<Rightarrow> Turn \<Rightarrow> StepResult \<times> CPhaseRuntime" where
  "step_turn self t = step self (turn_clock t) (turn_psi t) (turn_hard_flag t)"

fun final :: "CPhaseRuntime \<Rightarrow> Turn list \<Rightarrow> CPhaseRuntime" where
  "final self [] = self"
| "final self (t # ts) = final (snd (step_turn self t)) ts"

fun results :: "CPhaseRuntime \<Rightarrow> Turn list \<Rightarrow> StepResult list" where
  "results self [] = []"
| "results self (t # ts) = fst (step_turn self t) # results (snd (step_turn self t)) ts"

text \<open>The demo block's turn for a reading: gradient \<open>val - 0.15\<close>, no hard flag.\<close>

definition demo_turn :: "real \<Rightarrow> Turn" where
  "demo_turn val =
     \<lparr>turn_clock = \<lparr>utcnow_id = 0, utcnow_ts = 0\<rparr>,
      turn_psi = \<lparr>psi_value = val, gradient = val - 0.15\<rparr>,
      turn_hard_flag = False\<rparr>"

definition timeline :: "real list" where
  "timeline = [0.32, 0.18, 0.07, 0.06, 0.08, 0.12, 0.16]"

text \<open>A crisis tick, in the words of the specification: hard flag set or psi below 0.05.\<close>

definition crisis_tick :: "Turn \<Rightarrow> bool" where
  "crisis_tick t \<longleftrightarrow> turn_hard_flag t \<or> psi_value (turn_psi t) < 0.05"

text \<open>
  The invariant of the machine that the proofs below carry along a run: the recovery
  counter stays below \<open>RESTORE_TURNS\<close>, and an inactive machine has a zero recovery
  counter and a zero beat cursor.
\<close>

definition cp_inv :: "CPhaseRuntime \<Rightarrow> bool" where
  "cp_inv s \<longleftrightarrow> recovery_turns s < 3 \<and> (active s \<or> (recovery_turns s = 0 \<and> turn_counter s = 0))"

text \<open>
  A run with two crisis episodes: a lone dip, an entry, three recovering turns that
  exit, and a second entry.
\<close>

definition two_episodes :: "Turn list" where
  "two_episodes = map demo_turn [0.04, 0.2, 0.04, 0.03, 0.2, 0.2, 0.2, 0.04, 0.03]"

text \<open>
  A recovery tick, in the words of the specification: no hard flag and psi at or above
  0.10.
\<close>

definition recovery_tick :: "Turn \<Rightarrow> bool" where
  "recovery_tick t \<longleftrightarrow> \<not> turn_hard_flag t \<and> psi_value (turn_psi t) \<ge> 0.10"

text \<open>Inputs on which the theorems below are exercised.\<close>

definition recovering :: "Turn list" where
  "recovering = map demo_turn [0.04, 0.03, 0.2, 0.2]"

definition flagged_turn :: "real \<Rightarrow> Turn" where
  "flagged_turn val = (demo_turn val)\<lparr>turn_hard_flag := True\<rparr>"

definition negative_psi :: PsiState where
  "negative_psi = \<lparr>psi_value = - 0.3, gradient = 0\<rparr>"

definition excessive_psi :: PsiState where
  "excessive_psi = \<lparr>psi_value = 1.5, gradient = 0\<rparr>"

definition clock0 :: Clock where
  "clock0 = \<lparr>utcnow_id = 0, utcnow_ts = 0\<rparr>"

section \<open>monitor.py: the trajectory store\<close>

text \<open>
  \<open>PsiMonitor\<close> keeps the messages, the snapshots and the alert records. Its clock is an
  input of the model: \<open>now\<close> is the reading \<open>time.time() - self.start_time\<close> that
  \<open>update\<close> takes, \<open>wall\<close> the reading of \<open>datetime.now()\<close> in \<open>_alert\<close>. The alert
  callback and the \<open>print\<close> of \<open>_alert\<close> do not touch the monitor and are left out.
  The source's parameter \<open>O\<close> is written \<open>O'\<close>, since \<open>O\<close> is relation composition in
  HOL.
\<close>

record Message =
  msg_timestamp :: real
  speaker :: string
  msg_text :: string
  msg_meta :: "(string \<times> string) list"

record PsiSnapshot =
  snap_timestamp :: real
  snap_E :: real
  snap_I :: real
  snap_O :: real
  snap_P_align :: real
  snap_psi :: real
  snap_dpsi_dt :: "real option"

record AlertRecord =
  rec_time :: real
  level :: string
  rec_psi :: real
  rec_E :: real
  rec_I :: real
  rec_O :: real
  rec_P_align :: real
  rec_text :: string

record PsiMonitor =
  threshold :: real
  history :: "Message list"
  snapshots :: "PsiSnapshot list"
  alerts :: "AlertRecord list"

definition PsiMonitor_init :: "real \<Rightarrow> PsiMonitor" where
  "PsiMonitor_init thr = \<lparr>threshold = thr, history = [], snapshots = [], alerts = []\<rparr>"

text \<open>\<open>PsiMonitor._alert\<close>\<close>

definition monitor_alert :: "PsiMonitor \<Rightarrow> real \<Rightarrow> PsiSnapshot \<Rightarrow> string \<Rightarrow> PsiMonitor" where
  "monitor_alert self wall snap txt =
     (let lvl = (if snap_psi snap < 0.005 then ''EXTREME''
                 else if snap_psi snap < 0.02 then ''SEVERE''
                 else ''DARK_NIGHT'');
          rcd = \<lparr>rec_time = wall, level = lvl, rec_psi = snap_psi snap,
                 rec_E = snap_E snap, rec_I = snap_I snap, rec_O = snap_O snap,
                 rec_P_align = snap_P_align snap, rec_text = txt\<rparr>
      in self\<lparr>alerts := alerts self @ [rcd]\<rparr>)"

definition update ::
  "PsiMonitor \<Rightarrow> real \<Rightarrow> real \<Rightarrow> string \<Rightarrow> real \<Rightarrow> real \<Rightarrow> real \<Rightarrow> real
     \<Rightarrow> (string \<times> string) list option \<Rightarrow> real \<times> PsiMonitor" where
  "update self now wall txt E I O' P_align meta =
     (let self1 = self\<lparr>history := history self @
            [\<lparr>msg_timestamp = now, speaker = ''user'', msg_text = txt,
              msg_meta = (case meta of None \<Rightarrow> [] | Some m \<Rightarrow> m)\<rparr>]\<rparr>;
          psi = E * I * O' * P_align;
          dpsi = (if snapshots self1 \<noteq> [] then
                    (let prev = last (snapshots self1);
                         dt = now - snap_timestamp prev
                     in if dt > 0 then Some ((psi - snap_psi prev) / dt) else None)
                  else None);
          snap = \<lparr>snap_timestamp = now, snap_E = E, snap_I = I, snap_O = O',
                  snap_P_align = P_align, snap_psi = psi, snap_dpsi_dt = dpsi\<rparr>;
          self2 = self1\<lparr>snapshots := snapshots self1 @ [snap]\<rparr>;
          self3 = (if psi < threshold self2 then monitor_alert self2 wall snap txt else self2)
      in (psi, self3))"

text \<open>
  A sequence of calls of \<open>update\<close> on one monitor: the arguments and clock readings of
  each call, and the monitor after all of them.
\<close>

record UpdateCall =
  call_now :: real
  call_wall :: real
  call_text :: string
  call_E :: real
  call_I :: real
  call_O :: real
  call_P_align :: real
  call_meta :: "(string \<times> string) list option"

definition update_call :: "PsiMonitor \<Rightarrow> UpdateCall \<Rightarrow> PsiMonitor" where
  "update_call self c =
     snd (update self (call_now c) (call_wall c) (call_text c)
            (call_E c) (call_I c) (call_O c) (call_P_align c) (call_meta c))"

definition run_updates :: "PsiMonitor \<Rightarrow> UpdateCall list \<Rightarrow> PsiMonitor" where
  "run_updates self cs = foldl update_call self cs"

text \<open>
  The backward finite difference in the words of the specification: with \<open>psi_n\<close> the
  product of the four components of call n and \<open>t_n\<close> its time, the quotient
  \<open>(psi_n - psi_{n-1}) / (t_n - t_{n-1})\<close>, undefined when \<open>t_n - t_{n-1} \<le> 0\<close>.
\<close>

definition call_psi :: "UpdateCall \<Rightarrow> real" where
  "call_psi c = call_E c * call_I c * call_O c * call_P_align c"

definition backward_difference :: "UpdateCall \<Rightarrow> UpdateCall \<Rightarrow> real option" where
  "backward_difference p c =
     (if call_now c - call_now p \<le> 0 then None
      else Some ((call_psi c - call_psi p) / (call_now c - call_now p)))"

text \<open>
  The three calls of the module's demo block, at elapsed times 0, 2 and 2 (the third
  with no time passed since the second).
\<close>

definition monitor_demo :: "UpdateCall list" where
  "monitor_demo =
     [\<lparr>call_now = 0, call_wall = 0, call_text = ''Baseline'',
       call_E = 0.6, call_I = 0.7, call_O = 0.8, call_P_align = 0.9, call_meta = None\<rparr>,
      \<lparr>call_now = 2, call_wall = 2, call_text = ''Dark Night begins'',
       call_E = 0.3, call_I = 0.4, call_O = 0.2, call_P_align = 0.05, call_meta = None\<rparr>,
      \<lparr>call_now = 2, call_wall = 2, call_text = ''Recovering'',
       call_E = 0.8, call_I = 0.9, call_O = 0.9, call_P_align = 0.9, call_meta = None\<rparr>]"

section \<open>psi\_engine.py: scenes\<close>

text \<open>
  \<open>Scene\<close> is a dataclass whose \<open>__post_init__\<close> checks the four components in the
  order energy, information, order, p\_align, and raises \<open>ValueError\<close>, naming the first
  one outside [0,1]. Constructing a scene is \<open>new_Scene\<close>: the fields, then
  \<open>post_init\<close>. The field \<open>notes\<close> is \<open>scene_notes\<close> here.
\<close>

datatype error = ValueError string real

record Scene =
  scene_number :: int
  timestamp :: real
  title :: string
  energy :: real
  information :: real
  order :: real
  p_align :: real
  characters :: "string list option"
  location :: string
  scene_notes :: string

definition calculate_psi :: "Scene \<Rightarrow> real" where
  "calculate_psi self = energy self * information self * order self * p_align self"

fun check_components :: "(string \<times> real) list \<Rightarrow> error option" where
  "check_components [] = None"
| "check_components ((name, val) # rest) =
     (if \<not> (0 \<le> val \<and> val \<le> 1) then Some (ValueError name val)
      else check_components rest)"

definition post_init :: "Scene \<Rightarrow> error + Scene" where
  "post_init self =
     (case check_components
             [(''energy'', energy self), (''information'', information self),
              (''order'', order self), (''p_align'', p_align self)] of
        Some e \<Rightarrow> Inl e
      | None \<Rightarrow> Inr self)"

definition new_Scene ::
  "int \<Rightarrow> real \<Rightarrow> string \<Rightarrow> real \<Rightarrow> real \<Rightarrow> real \<Rightarrow> real \<Rightarrow> error + Scene" where
  "new_Scene n t ttl e i od p =
     post_init \<lparr>scene_number = n, timestamp = t, title = ttl, energy = e,
                information = i, order = od, p_align = p, characters = None,
                location = [], scene_notes = []\<rparr>"

text \<open>The first scene of the module's example block.\<close>

definition scene_opening :: Scene where
  "scene_opening =
     \<lparr>scene_number = 1, timestamp = 0, title = ''Opening'', energy = 0.4,
      information = 0.8, order = 0.9, p_align = 0.7, characters = None,
      location = [], scene_notes = []\<rparr>"

section \<open>acp\_runtime.py: the tier selector\<close>

text \<open>The other non-ASCII characters of this module's literals, as UTF-8 bytes.\<close>

definition u_lsquo :: string where
  "u_lsquo = [CHR 0xE2, CHR 0x80, CHR 0x98]"

definition u_bullet :: string where
  "u_bullet = [CHR 0xE2, CHR 0x80, CHR 0xA2]"

definition u_le :: string where
  "u_le = [CHR 0xE2, CHR 0x89, CHR 0xA4]"

definition u_ge :: string where
  "u_ge = [CHR 0xE2, CHR 0x89, CHR 0xA5]"

text \<open>
  The binary64 value nearest to a real, ties to the even mantissa: the magnitude is
  scaled by powers of two until it lies in \<open>[2^52, 2^53)\<close> (or the exponent reaches
  \<open>-1074\<close>, the subnormal range), rounded to an integer mantissa and scaled back.
  Magnitudes beyond the largest binary64 are outside the model.
\<close>

function scale_down :: "real \<Rightarrow> int \<Rightarrow> real \<times> int" where
  "scale_down y e = (if 2 ^ 53 \<le> y then scale_down (y / 2) (e + 1) else (y, e))"
  by pat_completeness auto

termination
proof (relation "measure (\<lambda>(y, e). nat \<lfloor>y\<rfloor>)")
  show "wf (measure (\<lambda>(y, e). nat \<lfloor>y\<rfloor>))" by simp
next
  fix y :: real and e :: int
  assume a: "2 ^ 53 \<le> y"
  then have "y / 2 \<le> y - 1" by simp
  then have "\<lfloor>y / 2\<rfloor> \<le> \<lfloor>y - 1\<rfloor>" by (rule floor_mono)
  moreover have "0 < \<lfloor>y\<rfloor>" using a by simp
  ultimately show "((y / 2, e + 1), (y, e)) \<in> measure (\<lambda>(y, e). nat \<lfloor>y\<rfloor>)"
    by simp
qed

function scale_up :: "real \<Rightarrow> int \<Rightarrow> real \<times> int" where
  "scale_up y e =
     (if y < 2 ^ 52 \<and> - 1074 < e then scale_up (2 * y) (e - 1) else (y, e))"
  by pat_completeness auto

termination
  by (relation "measure (\<lambda>(y, e). nat (e + 1074))") auto

declare scale_down.simps [simp del] scale_up.simps [simp del]

definition round_half_even :: "real \<Rightarrow> nat" where
  "round_half_even y =
     (let f = nat \<lfloor>y\<rfloor>; r = y - real f
      in if r < 1 / 2 then f
         else if 1 / 2 < r then f + 1
         else if even f then f else f + 1)"

definition binary64 :: "real \<Rightarrow> real" where
  "binary64 x =
     (if x = 0 then 0
      else (let (y, e) = scale_down \<bar>x\<bar> 0;
                (y', e') = scale_up y e;
                m = real (round_half_even y')
            in sgn x * (if 0 \<le> e' then m * 2 ^ nat e' else m / 2 ^ nat (- e'))))"

text \<open>
  Python's fixed-point formats \<open>{x:.3f}\<close>, \<open>{x:+.3f}\<close> and \<open>{x:.2f}\<close>:
  \<open>format_f with_plus d x\<close> writes the sign (a minus for a negative value, a plus for
  the others under the \<open>+\<close> flag), then the absolute value of the binary64 nearest to
  \<open>x\<close>, rounded to \<open>d\<close> decimals, ties to even, as Python's correctly rounded
  conversion does. So \<open>0.015\<close> prints as \<open>0.01\<close> under \<open>.2f\<close>: the float lies below
  the decimal.
\<close>

fun digits :: "nat \<Rightarrow> string" where
  "digits n =
     (if n < 10 then [''0123456789'' ! n]
      else digits (n div 10) @ [''0123456789'' ! (n mod 10)])"

declare digits.simps [simp del]

definition format_f :: "bool \<Rightarrow> nat \<Rightarrow> real \<Rightarrow> string" where
  "format_f with_plus d x =
     (let n = round_half_even (\<bar>binary64 x\<bar> * 10 ^ d);
          frac = digits (n mod 10 ^ d)
      in (if x < 0 then ''-'' else if with_plus then ''+'' else [])
         @ digits (n div 10 ^ d) @ ''.''
         @ replicate (d - length frac) (CHR ''0'') @ frac)"

text \<open>\<open>sep.join(parts)\<close>\<close>

fun join :: "string \<Rightarrow> string list \<Rightarrow> string" where
  "join sep [] = []"
| "join sep [x] = x"
| "join sep (x # y # ys) = x @ sep @ join sep (y # ys)"

datatype Tier = SAFETY | COHERENCE | TRUTH

fun Tier_value :: "Tier \<Rightarrow> string" where
  "Tier_value SAFETY = ''SAFETY''"
| "Tier_value COHERENCE = ''COHERENCE''"
| "Tier_value TRUTH = ''TRUTH''"

record ACPConfig =
  crisis_threshold :: real
  caution_band :: real
  rapid_decline :: real
  min_c_phase_hold :: real

definition ACPConfig_default :: ACPConfig where
  "ACPConfig_default =
     \<lparr>crisis_threshold = 0.05, caution_band = 0.15, rapid_decline = - 0.50,
      min_c_phase_hold = 0.10\<rparr>"

text \<open>
  \<open>ACPDecision\<close>: the dicts \<open>prompts\<close> and \<open>signals\<close> have fixed keys and are records;
  the key \<open>context\<close> of \<open>signals\<close> is \<open>sig_context\<close> here, \<open>flags\<close> is \<open>sig_flags\<close>,
  and the fields \<open>tier\<close> and \<open>autonomous_action\<close> carry the prefix \<open>decision_\<close>.
\<close>

record Prompts =
  ui_text :: string
  assistant_hint :: string
  followup_hint :: string

record Metrics =
  m_psi :: real
  m_dpsi_dt :: real
  m_E :: real
  m_I :: real
  m_O :: real
  m_P_align :: real

record Signals =
  sig_context :: string
  metrics :: Metrics
  thresholds :: ACPConfig
  sig_flags :: "(string \<times> bool) list"
  selected_tier :: string

record ACPDecision =
  decision_tier :: Tier
  rationale :: string
  prompts :: Prompts
  signals :: Signals
  decision_autonomous_action :: bool

text \<open>
  \<open>hard_flags\<close> is a dict from flag names to booleans; the rationale lists the set flags
  in the dict's order, so it is an association list. \<open>flag_get\<close> is
  \<open>flags.get(k, False)\<close> and \<open>comp_get\<close> is \<open>comps.get(k, default)\<close>.
\<close>

definition flag_get :: "(string \<times> bool) list \<Rightarrow> string \<Rightarrow> bool" where
  "flag_get flags k = (case map_of flags k of Some v \<Rightarrow> v | None \<Rightarrow> False)"

definition comp_get :: "(string \<rightharpoonup> real) \<Rightarrow> string \<Rightarrow> real \<Rightarrow> real" where
  "comp_get comps k dflt = (case comps k of Some v \<Rightarrow> v | None \<Rightarrow> dflt)"

definition needs_safety ::
  "ACPConfig \<Rightarrow> real \<Rightarrow> real \<Rightarrow> (string \<rightharpoonup> real) \<Rightarrow> (string \<times> bool) list \<Rightarrow> bool" where
  "needs_safety cfg psi dpsi_dt comps flags =
     (if flag_get flags ''explicit_self_harm'' then True
      else if psi < crisis_threshold cfg then True
      else (let rapid = dpsi_dt \<le> rapid_decline cfg;
                low_p = comp_get comps ''P_align'' 1.0 < 0.10;
                low_i = comp_get comps ''I'' 1.0 < 0.10
            in if rapid \<and> (low_p \<or> low_i) then True else False))"

definition needs_coherence ::
  "ACPConfig \<Rightarrow> real \<Rightarrow> real \<Rightarrow> (string \<rightharpoonup> real) \<Rightarrow> (string \<times> bool) list \<Rightarrow> bool" where
  "needs_coherence cfg psi dpsi_dt comps flags =
     (if flag_get flags ''explicit_self_harm'' then False
      else if crisis_threshold cfg \<le> psi \<and> psi < caution_band cfg then True
      else if psi \<ge> caution_band cfg \<and> comp_get comps ''P_align'' 1.0 < 0.20 \<and> dpsi_dt < 0.0
      then True
      else False)"

definition clamp01 :: "real \<Rightarrow> real" where
  "clamp01 x = max 0.0 (min 1.0 x)"

definition compose_rationale ::
  "Tier \<Rightarrow> real \<Rightarrow> real \<Rightarrow> (string \<rightharpoonup> real) \<Rightarrow> (string \<times> bool) list \<Rightarrow> string \<Rightarrow> string" where
  "compose_rationale tr psi dpsi_dt comps flags extra =
     (let e = clamp01 (comp_get comps ''E'' 0.0);
          i = clamp01 (comp_get comps ''I'' 0.0);
          o' = clamp01 (comp_get comps ''O'' 0.0);
          p = clamp01 (comp_get comps ''P_align'' 0.0);
          parts = [''Tier='' @ Tier_value tr,
                   u_Psi @ ''='' @ format_f False 3 psi,
                   ''d'' @ u_Psi @ ''/dt='' @ format_f True 3 dpsi_dt,
                   ''E='' @ format_f False 2 e @ '', I='' @ format_f False 2 i
                     @ '', O='' @ format_f False 2 o' @ '', P_align='' @ format_f False 2 p];
          parts1 = (if list_ex snd flags
                    then parts @ [''flags='' @ join '','' (map fst (filter snd flags))]
                    else parts)
      in join '' | '' (parts1 @ [extra]))"

definition signals_dict ::
  "ACPConfig \<Rightarrow> real \<Rightarrow> real \<Rightarrow> (string \<rightharpoonup> real) \<Rightarrow> (string \<times> bool) list
     \<Rightarrow> string option \<Rightarrow> Tier \<Rightarrow> Signals" where
  "signals_dict cfg psi dpsi_dt comps flags context_tag tr =
     \<lparr>sig_context = (case context_tag of None \<Rightarrow> ''unspecified''
                      | Some t \<Rightarrow> if t = [] then ''unspecified'' else t),
      metrics = \<lparr>m_psi = psi, m_dpsi_dt = dpsi_dt,
                 m_E = clamp01 (comp_get comps ''E'' 0.0),
                 m_I = clamp01 (comp_get comps ''I'' 0.0),
                 m_O = clamp01 (comp_get comps ''O'' 0.0),
                 m_P_align = clamp01 (comp_get comps ''P_align'' 0.0)\<rparr>,
      thresholds = \<lparr>crisis_threshold = crisis_threshold cfg,
                    caution_band = caution_band cfg,
                    rapid_decline = rapid_decline cfg,
                    min_c_phase_hold = min_c_phase_hold cfg\<rparr>,
      sig_flags = flags,
      selected_tier = Tier_value tr\<rparr>"

definition make_safety_decision ::
  "ACPConfig \<Rightarrow> real \<Rightarrow> real \<Rightarrow> (string \<rightharpoonup> real) \<Rightarrow> (string \<times> bool) list
     \<Rightarrow> string option \<Rightarrow> ACPDecision" where
  "make_safety_decision cfg psi dpsi_dt comps flags context_tag =
     \<lparr>decision_tier = SAFETY,
      rationale = compose_rationale SAFETY psi dpsi_dt comps flags
        ''Crisis threshold or explicit risk triggered. Normal reasoning suspended.'',
      prompts =
        \<lparr>ui_text =
           ''I'm here with you. Let'' @ u_rsquo @ ''s slow the pace together.'' @ [CHR 0x0A]
           @ u_bullet @ '' Inhale 4, hold 2, exhale 6 '' @ u_mdash @ '' twice.''
           @ [CHR 0x0A] @ u_bullet @ '' Tiny step (pick one): sip water '' @ u_bullet
           @ '' change posture '' @ u_bullet @ '' look at something steady.'' @ [CHR 0x0A]
           @ ''If you want, I can bring in a 24/7 counselor (988 / Crisis ''
           @ ''Text Line).'',
         assistant_hint =
           ''Containment mode: keep sentences short, name feelings ''
           @ ''without elaboration, present two concrete micro-choices, ''
           @ ''and gently offer human help. Do not argue facts or provide ''
           @ ''complex instructions.'',
         followup_hint =
           ''Offer the bridge again with consent. If declined, ''
           @ ''acknowledge and keep the pace slow. Wait for '' @ u_Psi @ '' '' @ u_ge
           @ '' '' @ format_f False 2 (min_c_phase_hold cfg)
           @ '' sustained before restoring normal reasoning.''\<rparr>,
      signals = signals_dict cfg psi dpsi_dt comps flags context_tag SAFETY,
      decision_autonomous_action = False\<rparr>"

definition make_coherence_decision ::
  "ACPConfig \<Rightarrow> real \<Rightarrow> real \<Rightarrow> (string \<rightharpoonup> real) \<Rightarrow> (string \<times> bool) list
     \<Rightarrow> string option \<Rightarrow> ACPDecision" where
  "make_coherence_decision cfg psi dpsi_dt comps flags context_tag =
     \<lparr>decision_tier = COHERENCE,
      rationale = compose_rationale COHERENCE psi dpsi_dt comps flags
        (''Low/stable '' @ u_Psi @ '' or falling purpose alignment indicates we should ''
         @ ''rehabilitate pattern before facts.''),
      prompts =
        \<lparr>ui_text =
           ''Let'' @ u_rsquo
           @ ''s steady the pattern before we go deeper. Two quick options:'' @ [CHR 0x0A]
           @ ''1) Clarify the goal in one line. 2) List the next two small steps.''
           @ [CHR 0x0A] @ ''We'' @ u_rsquo
           @ ''ll resume full detail once the path feels aligned.'',
         assistant_hint =
           ''Stabilize purpose and structure. Reflect the user'' @ u_rsquo @ ''s goal in ''
           @ u_le @ ''12 words, surface one contradiction or missing piece, and ''
           @ ''offer a fork of two simple next steps. Avoid long lectures; ''
           @ ''keep momentum intentional.'',
         followup_hint =
           ''Once P_align and I rise together (and d'' @ u_Psi @ ''/dt '' @ u_ge
           @ '' 0), propose returning to TRUTH tier.''\<rparr>,
      signals = signals_dict cfg psi dpsi_dt comps flags context_tag COHERENCE,
      decision_autonomous_action = False\<rparr>"

definition make_truth_decision ::
  "ACPConfig \<Rightarrow> real \<Rightarrow> real \<Rightarrow> (string \<rightharpoonup> real) \<Rightarrow> (string \<times> bool) list
     \<Rightarrow> string option \<Rightarrow> ACPDecision" where
  "make_truth_decision cfg psi dpsi_dt comps flags context_tag =
     \<lparr>decision_tier = TRUTH,
      rationale = compose_rationale TRUTH psi dpsi_dt comps flags
        (u_Psi @ '' above caution band with no hard-risk flags; proceed with ''
         @ ''normal reasoning.''),
      prompts =
        \<lparr>ui_text =
           ''Ready for straight answers. Ask directly, and I'' @ u_rsquo
           @ ''ll be concise and precise.'',
         assistant_hint =
           ''Deliver facts. Cite sources when available. Keep paragraphs ''
           @ ''tight, offer one alternative view if relevant, and provide ''
           @ ''a clean next-step.'',
         followup_hint =
           ''Invite a quick sanity-check: '' @ u_lsquo
           @ ''Want me to zoom out if this drifts off your goal?'' @ u_rsquo\<rparr>,
      signals = signals_dict cfg psi dpsi_dt comps flags context_tag TRUTH,
      decision_autonomous_action = False\<rparr>"

definition decide ::
  "ACPConfig \<Rightarrow> real \<Rightarrow> real \<Rightarrow> (string \<rightharpoonup> real) \<Rightarrow> (string \<times> bool) list option
     \<Rightarrow> string option \<Rightarrow> ACPDecision" where
  "decide cfg psi dpsi_dt components hard_flags context_tag =
     (let hard_flags1 = (case hard_flags of None \<Rightarrow> [] | Some f \<Rightarrow> f);
          safe_needed = needs_safety cfg psi dpsi_dt components hard_flags1;
          coh_needed = needs_coherence cfg psi dpsi_dt components hard_flags1
      in if safe_needed then
           make_safety_decision cfg psi dpsi_dt components hard_flags1 context_tag
         else if coh_needed then
           make_coherence_decision cfg psi dpsi_dt components hard_flags1 context_tag
         else make_truth_decision cfg psi dpsi_dt components hard_flags1 context_tag)"

text \<open>
  Inputs of the module's demo block: the components of its third and sixth samples, and
  the sixth with \<open>P_align\<close> left out.
\<close>

definition sample3 :: "string \<rightharpoonup> real" where
  "sample3 = [''E'' \<mapsto> 0.80, ''I'' \<mapsto> 0.08, ''O'' \<mapsto> 0.45, ''P_align'' \<mapsto> 0.09]"

definition sample6 :: "string \<rightharpoonup> real" where
  "sample6 = [''E'' \<mapsto> 0.50, ''I'' \<mapsto> 0.70, ''O'' \<mapsto> 0.75, ''P_align'' \<mapsto> 0.80]"

definition missing_p :: "string \<rightharpoonup> real" where
  "missing_p = [''E'' \<mapsto> 0.50, ''I'' \<mapsto> 0.70, ''O'' \<mapsto> 0.75]"

text \<open>\<open>mentions w s\<close>: the word \<open>w\<close> occurs in the string \<open>s\<close>.\<close>

fun mentions :: "string \<Rightarrow> string \<Rightarrow> bool" where
  "mentions w [] = (w = [])"
| "mentions w (c # cs) = (take (length w) (c # cs) = w \<or> mentions w cs)"


section \<open>Properties of the crisis state machine\<close>

subsection \<open>Runs of the machine\<close>

lemmas cp_defs = step_turn_def step_def detect_def deescalate_def check_exit_def
  Let_def MIN_SUSTAINED_def RESTORE_TURNS_def CRISIS_THRESHOLD_def EXIT_THRESHOLD_def

lemma final_append: "final s (xs @ ys) = final (final s xs) ys"
  by (induction xs arbitrary: s) auto

lemma results_append: "results s (xs @ ys) = results s xs @ results (final s xs) ys"
  by (induction xs arbitrary: s) auto

lemma length_results: "length (results s ts) = length ts"
  by (induction ts arbitrary: s) auto

lemma nth_results:
  "i < length ts \<Longrightarrow> results s ts ! i = fst (step_turn (final s (take i ts)) (ts ! i))"
proof (induction ts arbitrary: s i)
  case Nil
  then show ?case by simp
next
  case (Cons t ts)
  then show ?case by (cases i) auto
qed

lemma final_take_Suc:
  "i < length ts \<Longrightarrow> final s (take (Suc i) ts) = snd (step_turn (final s (take i ts)) (ts ! i))"
  by (simp add: take_Suc_conv_app_nth final_append)

lemma step_alert_iff:
  "alert (fst (step_turn s t)) \<noteq> None \<longleftrightarrow>
     crisis_tick t \<and> 1 \<le> crisis_turns s \<and> \<not> active s"
  by (auto simp: cp_defs crisis_tick_def split: if_splits)

lemma step_alert_active:
  "alert (fst (step_turn s t)) \<noteq> None \<Longrightarrow> active (snd (step_turn s t))"
  by (auto simp: cp_defs split: if_splits)

lemma step_exit_iff:
  "tier (fst (step_turn s t)) = ''COHERENCE'' \<longleftrightarrow>
     active s \<and> \<not> turn_hard_flag t \<and> psi_value (turn_psi t) \<ge> 0.10 \<and> recovery_turns s + 1 \<ge> 3"
  by (auto simp: cp_defs split: if_splits)

lemma step_stays_active:
  "active s \<Longrightarrow> tier (fst (step_turn s t)) \<noteq> ''COHERENCE'' \<Longrightarrow> active (snd (step_turn s t))"
  by (auto simp: cp_defs split: if_splits)

lemma step_crisis_turns_pos:
  "0 < crisis_turns (snd (step_turn s t)) \<Longrightarrow> crisis_tick t"
  by (auto simp: cp_defs crisis_tick_def split: if_splits)

lemma final_crisis_turns_pos:
  "0 < crisis_turns (final CPhaseRuntime_init ts) \<Longrightarrow> ts \<noteq> [] \<and> crisis_tick (last ts)"
proof (induction ts rule: rev_induct)
  case Nil
  then show ?case by (simp add: CPhaseRuntime_init_def)
next
  case (snoc t ts)
  then show ?case by (simp add: final_append step_crisis_turns_pos)
qed

lemma cp_inv_init: "cp_inv CPhaseRuntime_init"
  by (simp add: cp_inv_def CPhaseRuntime_init_def)

lemma cp_inv_step: "cp_inv s \<Longrightarrow> cp_inv (snd (step_turn s t))"
  by (auto simp: cp_inv_def cp_defs split: if_splits)

lemma cp_inv_final: "cp_inv s \<Longrightarrow> cp_inv (final s ts)"
  by (induction ts arbitrary: s) (auto simp: cp_inv_step)

lemma step_idle:
  "\<not> active s \<Longrightarrow> crisis_turns s = 0 \<Longrightarrow> \<not> crisis_tick t \<Longrightarrow>
     step_turn s t = (\<lparr>tier = ''NORMAL'', message = None, alert = None\<rparr>, s)"
  by (auto simp: cp_defs crisis_tick_def split: if_splits)

lemma run_idle:
  "\<not> active s \<Longrightarrow> crisis_turns s = 0 \<Longrightarrow> \<forall>t\<in>set ts. \<not> crisis_tick t \<Longrightarrow>
     results s ts = replicate (length ts) \<lparr>tier = ''NORMAL'', message = None, alert = None\<rparr>
     \<and> final s ts = s"
  by (induction ts) (auto simp: step_idle)

subsection \<open>The demo timeline\<close>

text \<open>
  Claim C1, as stated, fails. On the psi sequence 0.32, 0.18, 0.07, 0.06, 0.08, 0.12,
  0.16 with no hard flag, from a fresh machine, the claim has crisis entry fire at the
  4th reading and exactly one alert over the sequence. None of the seven readings is
  below \<open>CRISIS_THRESHOLD = 0.05\<close> (0.07 and 0.06 are not), so \<open>detect\<close> never counts
  a crisis turn: the 4th call of \<open>step\<close> returns no alert, and no call does.
\<close>

theorem C1_counterexample:
  "alert (results CPhaseRuntime_init (map demo_turn timeline) ! 3) = None
   \<and> filter (\<lambda>r. alert r \<noteq> None) (results CPhaseRuntime_init (map demo_turn timeline)) = []"
  by (simp add: timeline_def demo_turn_def CPhaseRuntime_init_def cp_defs)

text \<open>
  Claim C1, amended. For every run of seven turns whose psi values are 0.32, 0.18, 0.07,
  0.06, 0.08, 0.12, 0.16 (any gradients, any clock readings) with no hard flag, from a
  fresh machine: crisis entry never fires and no alert is emitted; each of the seven
  calls of \<open>step\<close> returns tier \<open>NORMAL\<close> with message \<open>None\<close>; exit does not fire
  either, the machine is never active and ends in its initial state.
\<close>

theorem C1_timeline_no_entry:
  assumes "map (\<lambda>t. psi_value (turn_psi t)) ts = timeline"
    and "\<forall>t\<in>set ts. \<not> turn_hard_flag t"
  shows "results CPhaseRuntime_init ts
           = replicate 7 \<lparr>tier = ''NORMAL'', message = None, alert = None\<rparr>
         \<and> final CPhaseRuntime_init ts = CPhaseRuntime_init"
proof -
  have len: "length ts = 7"
    using arg_cong [OF assms(1), of length] by (simp add: timeline_def)
  have "\<forall>t\<in>set ts. psi_value (turn_psi t) \<in> set timeline"
    using assms(1) by (metis (no_types, lifting) image_eqI list.set_map)
  then have "\<forall>t\<in>set ts. \<not> psi_value (turn_psi t) < 0.05"
    by (auto simp: timeline_def)
  with assms(2) have "\<forall>t\<in>set ts. \<not> crisis_tick t"
    by (simp add: crisis_tick_def)
  then show ?thesis
    using run_idle [of CPhaseRuntime_init ts] len by (simp add: CPhaseRuntime_init_def)
qed

theorem C1_timeline_no_entry_witness:
  "map (\<lambda>t. psi_value (turn_psi t)) (map demo_turn timeline) = timeline
   \<and> filter turn_hard_flag (map demo_turn timeline) = []
   \<and> results CPhaseRuntime_init (map demo_turn timeline)
       = replicate 7 \<lparr>tier = ''NORMAL'', message = None, alert = None\<rparr>
   \<and> final CPhaseRuntime_init (map demo_turn timeline) = CPhaseRuntime_init"
proof -
  have h1: "map (\<lambda>t. psi_value (turn_psi t)) (map demo_turn timeline) = timeline"
    by (simp add: demo_turn_def comp_def)
  have h2: "\<forall>t\<in>set (map demo_turn timeline). \<not> turn_hard_flag t"
    by (simp add: demo_turn_def)
  have h3: "filter turn_hard_flag (map demo_turn timeline) = []"
    using h2 by (simp add: filter_empty_conv)
  show ?thesis using h1 h3 C1_timeline_no_entry [OF h1 h2] by blast
qed

lemma step_tick_crisis_turns:
  "crisis_tick t \<Longrightarrow> 0 < crisis_turns (snd (step_turn s t))"
  by (auto simp: cp_defs crisis_tick_def split: if_splits)

lemma final_crisis_turns_iff:
  "0 < crisis_turns (final CPhaseRuntime_init ts) \<longleftrightarrow> ts \<noteq> [] \<and> crisis_tick (last ts)"
proof (induction ts rule: rev_induct)
  case Nil
  then show ?case by (simp add: CPhaseRuntime_init_def)
next
  case (snoc t ts)
  then show ?case
    using step_tick_crisis_turns step_crisis_turns_pos by (auto simp add: final_append)
qed

lemma last_take_nth: "0 < i \<Longrightarrow> i \<le> length ts \<Longrightarrow> last (take i ts) = ts ! (i - 1)"
  by (cases i) (auto simp: take_Suc_conv_app_nth)

lemma alert_at_iff:
  assumes "i < length ts"
  shows "alert (results CPhaseRuntime_init ts ! i) \<noteq> None \<longleftrightarrow>
           0 < i \<and> crisis_tick (ts ! i) \<and> crisis_tick (ts ! (i - 1))
           \<and> \<not> active (final CPhaseRuntime_init (take i ts))"
proof -
  have c: "1 \<le> crisis_turns (final CPhaseRuntime_init (take i ts))
             \<longleftrightarrow> 0 < i \<and> crisis_tick (ts ! (i - 1))"
  proof (cases "i = 0")
    case True
    then show ?thesis by (simp add: CPhaseRuntime_init_def)
  next
    case False
    then have "take i ts \<noteq> []" and "last (take i ts) = ts ! (i - 1)"
      using assms by (auto simp: last_take_nth)
    then show ?thesis
      using False final_crisis_turns_iff [of "take i ts"] by (simp add: Suc_le_eq)
  qed
  show ?thesis
    unfolding nth_results [OF assms] step_alert_iff c by blast
qed

lemma active_until_exit:
  assumes "active (final s (take m ts))"
    and "m \<le> n" and "n \<le> length ts"
    and "\<forall>k. m \<le> k \<and> k < n \<longrightarrow> tier (results s ts ! k) \<noteq> ''COHERENCE''"
  shows "active (final s (take n ts))"
  using assms(2,3,4)
proof (induction n)
  case 0
  then show ?case using assms(1) by simp
next
  case (Suc n)
  show ?case
  proof (cases "m = Suc n")
    case True
    then show ?thesis using assms(1) by simp
  next
    case False
    then have mn: "m \<le> n" using Suc.prems(1) by simp
    have n: "n < length ts" using Suc.prems(2) by simp
    have "active (final s (take n ts))"
      using Suc.IH mn n Suc.prems(3) by simp
    moreover have "tier (fst (step_turn (final s (take n ts)) (ts ! n))) \<noteq> ''COHERENCE''"
      using Suc.prems(3) mn n by (metis lessI nth_results)
    ultimately show ?thesis
      using n by (simp add: final_take_Suc step_stays_active)
  qed
qed

lemma exit_inactive:
  "tier (fst (step_turn s t)) = ''COHERENCE'' \<Longrightarrow> \<not> active (snd (step_turn s t))"
  by (auto simp: cp_defs split: if_splits)

lemma no_tick_no_entry:
  "\<not> crisis_tick t \<Longrightarrow> \<not> active s \<Longrightarrow> \<not> active (snd (step_turn s t))"
  by (auto simp: cp_defs crisis_tick_def split: if_splits)

lemma no_alert_no_entry:
  "alert (fst (step_turn s t)) = None \<Longrightarrow> \<not> active s \<Longrightarrow> \<not> active (snd (step_turn s t))"
  by (auto simp: cp_defs crisis_tick_def split: if_splits)

subsection \<open>Entry is edge-triggered\<close>

text \<open>
  Claim C2. For every sequence of calls of \<open>step\<close> from a fresh machine:
  (1) an alert is emitted on a turn only if that turn and the turn just before it are both
  crisis ticks (hard flag set or psi below 0.05) and the machine was not active before
  the turn, so no alert is emitted on the first turn;
  (2) between two turns that emit an alert there is an exit turn (tier \<open>COHERENCE\<close>,
  after which the machine is inactive), so one episode, from entry to its exit, emits
  one alert however long it lasts;
  (3) a single crisis tick, neither preceded nor followed by one, emits no alert, on its
  own turn or on the next, and leaves an inactive machine inactive.
\<close>

theorem C2_alert_edge_triggered:
  "(\<forall>i<length ts. alert (results CPhaseRuntime_init ts ! i) \<noteq> None \<longrightarrow>
      0 < i \<and> crisis_tick (ts ! i) \<and> crisis_tick (ts ! (i - 1))
      \<and> \<not> active (final CPhaseRuntime_init (take i ts)))
   \<and> (\<forall>i j. i < j \<and> j < length ts
        \<and> alert (results CPhaseRuntime_init ts ! i) \<noteq> None
        \<and> alert (results CPhaseRuntime_init ts ! j) \<noteq> None \<longrightarrow>
        (\<exists>k. i < k \<and> k < j \<and> tier (results CPhaseRuntime_init ts ! k) = ''COHERENCE''
             \<and> \<not> active (final CPhaseRuntime_init (take (Suc k) ts))))
   \<and> (\<forall>i. Suc i < length ts \<and> crisis_tick (ts ! i) \<and> \<not> crisis_tick (ts ! Suc i)
        \<and> (i = 0 \<or> \<not> crisis_tick (ts ! (i - 1))) \<longrightarrow>
        alert (results CPhaseRuntime_init ts ! i) = None
        \<and> alert (results CPhaseRuntime_init ts ! Suc i) = None
        \<and> (\<not> active (final CPhaseRuntime_init (take i ts)) \<longrightarrow>
             \<not> active (final CPhaseRuntime_init (take (Suc (Suc i)) ts))))"
proof (intro conjI allI impI)
  fix i
  assume "i < length ts" and "alert (results CPhaseRuntime_init ts ! i) \<noteq> None"
  then have *: "0 < i \<and> crisis_tick (ts ! i) \<and> crisis_tick (ts ! (i - 1))
      \<and> \<not> active (final CPhaseRuntime_init (take i ts))"
    using alert_at_iff by blast
  from * show "0 < i" by simp
  from * show "crisis_tick (ts ! i)" by simp
  from * show "crisis_tick (ts ! (i - 1))" by simp
  from * show "\<not> active (final CPhaseRuntime_init (take i ts))" by simp
next
  fix i j
  assume a: "i < j \<and> j < length ts
        \<and> alert (results CPhaseRuntime_init ts ! i) \<noteq> None
        \<and> alert (results CPhaseRuntime_init ts ! j) \<noteq> None"
  then have i: "i < length ts" and j: "j < length ts" and ij: "Suc i \<le> j" by auto
  have act: "active (final CPhaseRuntime_init (take (Suc i) ts))"
    using a i by (simp add: final_take_Suc nth_results step_alert_active)
  have nj: "\<not> active (final CPhaseRuntime_init (take j ts))"
    using a j alert_at_iff by blast
  have "\<not> (\<forall>k. Suc i \<le> k \<and> k < j \<longrightarrow> tier (results CPhaseRuntime_init ts ! k) \<noteq> ''COHERENCE'')"
    using active_until_exit [OF act ij] j nj by auto
  then obtain k where k: "Suc i \<le> k" "k < j" "tier (results CPhaseRuntime_init ts ! k) = ''COHERENCE''"
    by blast
  then have "k < length ts" using j by simp
  then have "\<not> active (final CPhaseRuntime_init (take (Suc k) ts))"
    using k(3) by (simp add: final_take_Suc nth_results exit_inactive)
  moreover have "i < k" using k(1) by simp
  ultimately show "\<exists>k. i < k \<and> k < j \<and> tier (results CPhaseRuntime_init ts ! k) = ''COHERENCE''
             \<and> \<not> active (final CPhaseRuntime_init (take (Suc k) ts))"
    using k(2,3) by blast
next
  fix i
  assume a: "Suc i < length ts \<and> crisis_tick (ts ! i) \<and> \<not> crisis_tick (ts ! Suc i)
        \<and> (i = 0 \<or> \<not> crisis_tick (ts ! (i - 1)))"
  then have i: "i < length ts" and si: "Suc i < length ts" by auto
  show n1: "alert (results CPhaseRuntime_init ts ! i) = None"
    using a alert_at_iff [OF i] by auto
  show n2: "alert (results CPhaseRuntime_init ts ! Suc i) = None"
    using a alert_at_iff [OF si] by auto
  assume na: "\<not> active (final CPhaseRuntime_init (take i ts))"
  have "\<not> active (final CPhaseRuntime_init (take (Suc i) ts))"
    using na n1 i by (simp add: final_take_Suc nth_results no_alert_no_entry)
  then show "\<not> active (final CPhaseRuntime_init (take (Suc (Suc i)) ts))"
    using n2 si by (simp add: final_take_Suc nth_results no_alert_no_entry)
qed

lemmas run_defs = demo_turn_def CPhaseRuntime_init_def cp_defs

theorem C2_alert_edge_triggered_witness:
  "alert (results CPhaseRuntime_init two_episodes ! 3) \<noteq> None
   \<and> alert (results CPhaseRuntime_init two_episodes ! 8) \<noteq> None
   \<and> crisis_tick (two_episodes ! 3) \<and> crisis_tick (two_episodes ! 2)
   \<and> \<not> active (final CPhaseRuntime_init (take 3 two_episodes))
   \<and> (\<exists>k. 3 < k \<and> k < 8 \<and> tier (results CPhaseRuntime_init two_episodes ! k) = ''COHERENCE''
          \<and> \<not> active (final CPhaseRuntime_init (take (Suc k) two_episodes)))
   \<and> crisis_tick (two_episodes ! 0) \<and> \<not> crisis_tick (two_episodes ! 1)
   \<and> alert (results CPhaseRuntime_init two_episodes ! 0) = None
   \<and> alert (results CPhaseRuntime_init two_episodes ! 1) = None
   \<and> \<not> active (final CPhaseRuntime_init (take 2 two_episodes))"
proof -
  have len: "length two_episodes = 9"
    by (simp add: two_episodes_def)
  have a3: "alert (results CPhaseRuntime_init two_episodes ! 3) \<noteq> None"
    by (simp add: two_episodes_def run_defs)
  have a8: "alert (results CPhaseRuntime_init two_episodes ! 8) \<noteq> None"
    by (simp add: two_episodes_def run_defs)
  have dip: "crisis_tick (two_episodes ! 0) \<and> \<not> crisis_tick (two_episodes ! Suc 0)"
    by (simp add: two_episodes_def demo_turn_def crisis_tick_def)
  have idle: "\<not> active (final CPhaseRuntime_init (take 0 two_episodes))"
    by (simp add: CPhaseRuntime_init_def)
  note T = C2_alert_edge_triggered [of two_episodes]
  have p1: "0 < (3::nat) \<and> crisis_tick (two_episodes ! 3) \<and> crisis_tick (two_episodes ! (3 - 1))
      \<and> \<not> active (final CPhaseRuntime_init (take 3 two_episodes))"
    using T [THEN conjunct1, rule_format, of 3] len a3 by simp
  have p2: "\<exists>k. 3 < k \<and> k < 8 \<and> tier (results CPhaseRuntime_init two_episodes ! k) = ''COHERENCE''
          \<and> \<not> active (final CPhaseRuntime_init (take (Suc k) two_episodes))"
    using T [THEN conjunct2, THEN conjunct1, rule_format, of 3 8] len a3 a8 by simp
  have p3: "alert (results CPhaseRuntime_init two_episodes ! 0) = None
        \<and> alert (results CPhaseRuntime_init two_episodes ! Suc 0) = None
        \<and> (\<not> active (final CPhaseRuntime_init (take 0 two_episodes)) \<longrightarrow>
             \<not> active (final CPhaseRuntime_init (take (Suc (Suc 0)) two_episodes)))"
    using T [THEN conjunct2, THEN conjunct2, rule_format, of 0] len dip by simp
  show ?thesis
    using a3 a8 p1 p2 p3 dip idle by (simp add: numeral_2_eq_2)
qed

lemma cp_inv_reach: "cp_inv (final CPhaseRuntime_init xs)"
  by (simp add: cp_inv_final cp_inv_init)

lemma step_recovery_pos:
  "cp_inv s \<Longrightarrow> 0 < recovery_turns (snd (step_turn s t)) \<Longrightarrow>
     recovery_tick t \<and> recovery_turns (snd (step_turn s t)) = recovery_turns s + 1"
  by (auto simp: cp_inv_def cp_defs recovery_tick_def split: if_splits)

lemma final_recovery_history:
  "(1 \<le> recovery_turns (final CPhaseRuntime_init xs) \<longrightarrow>
      xs \<noteq> [] \<and> recovery_tick (last xs))
   \<and> (2 \<le> recovery_turns (final CPhaseRuntime_init xs) \<longrightarrow>
      2 \<le> length xs \<and> recovery_tick (last xs) \<and> recovery_tick (last (butlast xs)))"
proof (induction xs rule: rev_induct)
  case Nil
  then show ?case by (simp add: CPhaseRuntime_init_def)
next
  case (snoc t xs)
  let ?s = "final CPhaseRuntime_init xs"
  have inv: "cp_inv ?s" by (rule cp_inv_reach)
  have st: "0 < recovery_turns (snd (step_turn ?s t)) \<Longrightarrow>
     recovery_tick t \<and> recovery_turns (snd (step_turn ?s t)) = recovery_turns ?s + 1"
    using step_recovery_pos [OF inv] by blast
  show ?case
  proof (intro conjI impI)
    assume "1 \<le> recovery_turns (final CPhaseRuntime_init (xs @ [t]))"
    then have "0 < recovery_turns (snd (step_turn ?s t))" by (simp add: final_append)
    with st show "xs @ [t] \<noteq> []" and "recovery_tick (last (xs @ [t]))" by auto
  next
    assume a: "2 \<le> recovery_turns (final CPhaseRuntime_init (xs @ [t]))"
    then have p: "0 < recovery_turns (snd (step_turn ?s t))" by (simp add: final_append)
    with st have q: "recovery_tick t" and e: "recovery_turns (snd (step_turn ?s t)) = recovery_turns ?s + 1"
      by auto
    from a e have "1 \<le> recovery_turns ?s" by (simp add: final_append)
    with snoc.IH have x: "xs \<noteq> []" and l: "recovery_tick (last xs)" by auto
    from x show "2 \<le> length (xs @ [t])" by (cases xs) auto
    from q show "recovery_tick (last (xs @ [t]))" by simp
    from l show "recovery_tick (last (butlast (xs @ [t])))" by simp
  qed
qed

subsection \<open>Recovery and exit\<close>

text \<open>
  Claim C4. Let the machine be active before a turn, after any run from a fresh machine.
  A turn with a hard flag sets the recovery counter to 0 and does not exit (the machine
  stays active, tier \<open>SAFETY\<close>). A turn with psi at or above 0.10 and no hard flag
  increments the recovery counter; a turn with psi below 0.10 and no hard flag sets it to
  0. Exit fires (tier \<open>COHERENCE\<close>) exactly when the increment brings the counter to 3,
  and then this turn and the two turns before it are three consecutive recovery ticks.
  On the exit turn the machine is left inactive with the crisis counter, the recovery
  counter and the beat cursor all 0, and \<open>step\<close> returns tier \<open>COHERENCE\<close> with the
  fixed message \<open>Stability restored. Resuming normal reasoning.\<close> and no alert.
\<close>

theorem C4_recovery_and_exit:
  assumes "active (final CPhaseRuntime_init xs)"
  shows
   "(turn_hard_flag t \<longrightarrow>
       recovery_turns (snd (step_turn (final CPhaseRuntime_init xs) t)) = 0
       \<and> active (snd (step_turn (final CPhaseRuntime_init xs) t))
       \<and> tier (fst (step_turn (final CPhaseRuntime_init xs) t)) = ''SAFETY'')
    \<and> (\<not> turn_hard_flag t \<and> psi_value (turn_psi t) \<ge> 0.10
        \<and> recovery_turns (final CPhaseRuntime_init xs) + 1 < 3 \<longrightarrow>
       recovery_turns (snd (step_turn (final CPhaseRuntime_init xs) t))
         = recovery_turns (final CPhaseRuntime_init xs) + 1
       \<and> active (snd (step_turn (final CPhaseRuntime_init xs) t))
       \<and> tier (fst (step_turn (final CPhaseRuntime_init xs) t)) = ''SAFETY'')
    \<and> (\<not> turn_hard_flag t \<and> psi_value (turn_psi t) < 0.10 \<longrightarrow>
       recovery_turns (snd (step_turn (final CPhaseRuntime_init xs) t)) = 0
       \<and> active (snd (step_turn (final CPhaseRuntime_init xs) t))
       \<and> tier (fst (step_turn (final CPhaseRuntime_init xs) t)) = ''SAFETY'')
    \<and> (tier (fst (step_turn (final CPhaseRuntime_init xs) t)) = ''COHERENCE'' \<longleftrightarrow>
         \<not> turn_hard_flag t \<and> psi_value (turn_psi t) \<ge> 0.10
         \<and> recovery_turns (final CPhaseRuntime_init xs) + 1 = 3)
    \<and> (tier (fst (step_turn (final CPhaseRuntime_init xs) t)) = ''COHERENCE'' \<longrightarrow>
         2 \<le> length xs \<and> recovery_tick (last (butlast xs)) \<and> recovery_tick (last xs)
         \<and> recovery_tick t
         \<and> snd (step_turn (final CPhaseRuntime_init xs) t)
             = \<lparr>crisis_turns = 0, recovery_turns = 0, active = False, turn_counter = 0\<rparr>
         \<and> message (fst (step_turn (final CPhaseRuntime_init xs) t))
             = Some ''Stability restored. Resuming normal reasoning.''
         \<and> alert (fst (step_turn (final CPhaseRuntime_init xs) t)) = None)"
proof -
  let ?s = "final CPhaseRuntime_init xs"
  have inv: "recovery_turns ?s < 3"
    using cp_inv_reach [of xs] by (simp add: cp_inv_def)
  have c1: "turn_hard_flag t \<longrightarrow>
       recovery_turns (snd (step_turn ?s t)) = 0 \<and> active (snd (step_turn ?s t))
       \<and> tier (fst (step_turn ?s t)) = ''SAFETY''"
    using assms by (auto simp: cp_defs split: if_splits)
  have c2: "\<not> turn_hard_flag t \<and> psi_value (turn_psi t) \<ge> 0.10 \<and> recovery_turns ?s + 1 < 3 \<longrightarrow>
       recovery_turns (snd (step_turn ?s t)) = recovery_turns ?s + 1
       \<and> active (snd (step_turn ?s t)) \<and> tier (fst (step_turn ?s t)) = ''SAFETY''"
    using assms by (auto simp: cp_defs split: if_splits)
  have c3: "\<not> turn_hard_flag t \<and> psi_value (turn_psi t) < 0.10 \<longrightarrow>
       recovery_turns (snd (step_turn ?s t)) = 0 \<and> active (snd (step_turn ?s t))
       \<and> tier (fst (step_turn ?s t)) = ''SAFETY''"
    using assms by (auto simp: cp_defs split: if_splits)
  have c4: "tier (fst (step_turn ?s t)) = ''COHERENCE'' \<longleftrightarrow>
         \<not> turn_hard_flag t \<and> psi_value (turn_psi t) \<ge> 0.10 \<and> recovery_turns ?s + 1 = 3"
    using assms inv unfolding step_exit_iff by auto
  have c5: "tier (fst (step_turn ?s t)) = ''COHERENCE'' \<longrightarrow>
         snd (step_turn ?s t)
             = \<lparr>crisis_turns = 0, recovery_turns = 0, active = False, turn_counter = 0\<rparr>
         \<and> message (fst (step_turn ?s t)) = Some ''Stability restored. Resuming normal reasoning.''
         \<and> alert (fst (step_turn ?s t)) = None"
    by (auto simp: cp_defs split: if_splits)
  have c6: "tier (fst (step_turn ?s t)) = ''COHERENCE'' \<longrightarrow>
         2 \<le> length xs \<and> recovery_tick (last (butlast xs)) \<and> recovery_tick (last xs)
         \<and> recovery_tick t"
  proof
    assume "tier (fst (step_turn ?s t)) = ''COHERENCE''"
    with c4 have q: "\<not> turn_hard_flag t \<and> psi_value (turn_psi t) \<ge> 0.10" and "2 \<le> recovery_turns ?s"
      by auto
    then show "2 \<le> length xs \<and> recovery_tick (last (butlast xs)) \<and> recovery_tick (last xs)
         \<and> recovery_tick t"
      using final_recovery_history [of xs] by (simp add: recovery_tick_def)
  qed
  from c1 c2 c3 c4 c5 c6 show ?thesis by blast
qed

theorem C4_recovery_and_exit_witness:
  "active (final CPhaseRuntime_init recovering)
   \<and> recovery_turns (final CPhaseRuntime_init recovering) = 2
   \<and> tier (fst (step_turn (final CPhaseRuntime_init recovering) (demo_turn 0.2))) = ''COHERENCE''
   \<and> snd (step_turn (final CPhaseRuntime_init recovering) (demo_turn 0.2))
        = \<lparr>crisis_turns = 0, recovery_turns = 0, active = False, turn_counter = 0\<rparr>
   \<and> message (fst (step_turn (final CPhaseRuntime_init recovering) (demo_turn 0.2)))
        = Some ''Stability restored. Resuming normal reasoning.''
   \<and> recovery_turns (snd (step_turn (final CPhaseRuntime_init recovering) (flagged_turn 0.2))) = 0
   \<and> active (snd (step_turn (final CPhaseRuntime_init recovering) (flagged_turn 0.2)))
   \<and> recovery_turns (snd (step_turn (final CPhaseRuntime_init recovering) (demo_turn 0.09))) = 0
   \<and> recovery_turns (snd (step_turn (final CPhaseRuntime_init (butlast recovering)) (demo_turn 0.2))) = 2"
proof -
  have act: "active (final CPhaseRuntime_init recovering)"
    by (simp add: recovering_def run_defs)
  have act': "active (final CPhaseRuntime_init (butlast recovering))"
    by (simp add: recovering_def run_defs)
  have rt: "recovery_turns (final CPhaseRuntime_init recovering) = 2"
    by (simp add: recovering_def run_defs)
  have rt': "recovery_turns (final CPhaseRuntime_init (butlast recovering)) = 1"
    by (simp add: recovering_def run_defs)
  have q: "\<not> turn_hard_flag (demo_turn 0.2) \<and> psi_value (turn_psi (demo_turn 0.2)) \<ge> 0.10"
    by (simp add: demo_turn_def)
  have f: "turn_hard_flag (flagged_turn 0.2)"
    by (simp add: flagged_turn_def)
  have b: "\<not> turn_hard_flag (demo_turn 0.09) \<and> psi_value (turn_psi (demo_turn 0.09)) < 0.10"
    by (simp add: demo_turn_def)
  note E = C4_recovery_and_exit [OF act, of "demo_turn 0.2"]
  note F = C4_recovery_and_exit [OF act, of "flagged_turn 0.2"]
  note B = C4_recovery_and_exit [OF act, of "demo_turn 0.09"]
  note I = C4_recovery_and_exit [OF act', of "demo_turn 0.2"]
  have e: "tier (fst (step_turn (final CPhaseRuntime_init recovering) (demo_turn 0.2))) = ''COHERENCE''"
    using E q rt by simp
  show ?thesis
    using act rt e E F B I q f b rt' by simp
qed

subsection \<open>An inactive machine has a zero recovery counter and beat cursor\<close>

text \<open>
  Claim C10. After every sequence of calls of \<open>step\<close> on a fresh machine, if the machine
  is inactive then its recovery counter and its beat cursor are both 0. So on every turn
  that enters crisis (the turn that emits the alert: inactive before, active after) the
  de-escalation message is beat 0 of the four, the \<open>GROUND\<close> beat.
\<close>

theorem C10_inactive_cursor_zero:
  "(\<not> active (final CPhaseRuntime_init ts) \<longrightarrow>
      recovery_turns (final CPhaseRuntime_init ts) = 0
      \<and> turn_counter (final CPhaseRuntime_init ts) = 0)
   \<and> (\<forall>i<length ts. alert (results CPhaseRuntime_init ts ! i) \<noteq> None \<longrightarrow>
        \<not> active (final CPhaseRuntime_init (take i ts))
        \<and> active (final CPhaseRuntime_init (take (Suc i) ts))
        \<and> message (results CPhaseRuntime_init ts ! i) = Some (beats ! 0))
   \<and> take 6 (beats ! 0) = ''GROUND''"
proof (intro conjI allI impI)
  assume "\<not> active (final CPhaseRuntime_init ts)"
  then show "recovery_turns (final CPhaseRuntime_init ts) = 0"
    and "turn_counter (final CPhaseRuntime_init ts) = 0"
    using cp_inv_final [OF cp_inv_init, of ts] by (auto simp: cp_inv_def)
next
  fix i
  assume i: "i < length ts" and a: "alert (results CPhaseRuntime_init ts ! i) \<noteq> None"
  let ?s = "final CPhaseRuntime_init (take i ts)"
  have a': "alert (fst (step_turn ?s (ts ! i))) \<noteq> None"
    using a i by (simp add: nth_results)
  then show na: "\<not> active ?s"
    unfolding step_alert_iff by simp
  have "turn_counter ?s = 0"
    using na cp_inv_final [OF cp_inv_init, of "take i ts"] by (auto simp: cp_inv_def)
  then have "message (fst (step_turn ?s (ts ! i))) = Some (beats ! 0)"
    using a' by (auto simp: cp_defs split: if_splits)
  then show "message (results CPhaseRuntime_init ts ! i) = Some (beats ! 0)"
    using i by (simp add: nth_results)
  show "active (final CPhaseRuntime_init (take (Suc i) ts))"
    using a' i by (simp add: final_take_Suc step_alert_active)
next
  show "take 6 (beats ! 0) = ''GROUND''"
    by (simp add: beats_def)
qed

theorem C10_inactive_cursor_zero_witness:
  "\<not> active (final CPhaseRuntime_init (take 7 two_episodes))
   \<and> recovery_turns (final CPhaseRuntime_init (take 7 two_episodes)) = 0
   \<and> turn_counter (final CPhaseRuntime_init (take 7 two_episodes)) = 0
   \<and> alert (results CPhaseRuntime_init two_episodes ! 3) \<noteq> None
   \<and> message (results CPhaseRuntime_init two_episodes ! 3) = Some (beats ! 0)
   \<and> alert (results CPhaseRuntime_init two_episodes ! 8) \<noteq> None
   \<and> message (results CPhaseRuntime_init two_episodes ! 8) = Some (beats ! 0)"
proof -
  have len: "length two_episodes = 9"
    by (simp add: two_episodes_def)
  have na: "\<not> active (final CPhaseRuntime_init (take 7 two_episodes))"
    by (simp add: two_episodes_def run_defs)
  have a3: "alert (results CPhaseRuntime_init two_episodes ! 3) \<noteq> None"
    by (simp add: two_episodes_def run_defs)
  have a8: "alert (results CPhaseRuntime_init two_episodes ! 8) \<noteq> None"
    by (simp add: two_episodes_def run_defs)
  note A = C10_inactive_cursor_zero [of "take 7 two_episodes", THEN conjunct1, rule_format, OF na]
  note B = C10_inactive_cursor_zero [of two_episodes, THEN conjunct2, THEN conjunct1, rule_format]
  have m3: "message (results CPhaseRuntime_init two_episodes ! 3) = Some (beats ! 0)"
    using B [of 3] len a3 by simp
  have m8: "message (results CPhaseRuntime_init two_episodes ! 8) = Some (beats ! 0)"
    using B [of 8] len a8 by simp
  show ?thesis
    using na A a3 a8 m3 m8 by blast
qed

subsection \<open>A psi outside the unit interval\<close>

text \<open>
  Claim C5, as stated, fails. The claim has \<open>step\<close> reject a psi outside [0,1] with a
  validation error before any field is modified. \<open>step\<close> and the functions it calls
  contain no check of psi and no \<open>raise\<close>; \<open>PsiState\<close> is a plain dataclass. On a
  fresh machine, \<open>step\<close> with psi = -0.3 and no hard flag returns the ordinary dict
  (tier \<open>NORMAL\<close>) and has incremented the crisis counter to 1.
\<close>

theorem C5_counterexample:
  "step CPhaseRuntime_init \<lparr>utcnow_id = 0, utcnow_ts = 0\<rparr> \<lparr>psi_value = - 0.3, gradient = 0\<rparr> False
     = (\<lparr>tier = ''NORMAL'', message = None, alert = None\<rparr>,
        \<lparr>crisis_turns = 1, recovery_turns = 0, active = False, turn_counter = 0\<rparr>)"
  by (simp add: CPhaseRuntime_init_def cp_defs)

text \<open>
  Claim C5, amended. \<open>step\<close> validates nothing and proceeds with any psi as given.
  A psi below 0 is a crisis tick like any reading below 0.05: the crisis counter is
  incremented, and if the turn before was a crisis tick too and the machine is inactive,
  the machine enters crisis and the alert carries the psi as given, not clamped. A psi
  above 1 with no hard flag is handled like any reading at or above 0.10: the crisis
  counter is reset to 0, no alert is emitted, and on an active machine the turn counts
  toward recovery (the recovery counter is incremented, or the machine exits).
\<close>

theorem C5_out_of_range_accepted:
  "(psi_value psi < 0 \<longrightarrow>
      crisis_turns (snd (step s clk psi hard_flag)) = crisis_turns s + 1
      \<and> (1 \<le> crisis_turns s \<and> \<not> active s \<longrightarrow>
           (\<exists>a. alert (fst (step s clk psi hard_flag)) = Some a \<and> alert_psi a = psi_value psi)
           \<and> active (snd (step s clk psi hard_flag))))
   \<and> (1 < psi_value psi \<and> \<not> hard_flag \<longrightarrow>
      crisis_turns (snd (step s clk psi hard_flag)) = 0
      \<and> alert (fst (step s clk psi hard_flag)) = None
      \<and> (active s \<longrightarrow>
           tier (fst (step s clk psi hard_flag)) = ''COHERENCE''
           \<or> recovery_turns (snd (step s clk psi hard_flag)) = recovery_turns s + 1))"
  by (auto simp: cp_defs make_alert_def split: if_splits)

theorem C5_out_of_range_accepted_witness:
  "crisis_turns (snd (step CPhaseRuntime_init clock0 negative_psi False)) = 1
   \<and> (\<exists>a. alert (fst (step (snd (step CPhaseRuntime_init clock0 negative_psi False))
                           clock0 negative_psi False)) = Some a
          \<and> alert_psi a = - 0.3)
   \<and> active (final CPhaseRuntime_init recovering)
   \<and> tier (fst (step (final CPhaseRuntime_init recovering) clock0 excessive_psi False))
        = ''COHERENCE''
   \<and> crisis_turns (snd (step (final CPhaseRuntime_init recovering) clock0 excessive_psi False)) = 0"
proof -
  let ?s1 = "snd (step CPhaseRuntime_init clock0 negative_psi False)"
  have n: "psi_value negative_psi < 0" and v: "psi_value negative_psi = - 0.3"
    by (simp_all add: negative_psi_def)
  have x: "1 < psi_value excessive_psi \<and> \<not> False"
    by (simp add: excessive_psi_def)
  have c0: "crisis_turns CPhaseRuntime_init = 0"
    by (simp add: CPhaseRuntime_init_def)
  have s1: "1 \<le> crisis_turns ?s1 \<and> \<not> active ?s1"
    by (simp add: negative_psi_def clock0_def CPhaseRuntime_init_def cp_defs)
  have act: "active (final CPhaseRuntime_init recovering)"
    by (simp add: recovering_def run_defs)
  have rt: "recovery_turns (final CPhaseRuntime_init recovering) = 2"
    by (simp add: recovering_def run_defs)
  have inv: "cp_inv (snd (step (final CPhaseRuntime_init recovering) clock0 excessive_psi False))"
    using cp_inv_step [OF cp_inv_reach, of recovering
        "\<lparr>turn_clock = clock0, turn_psi = excessive_psi, turn_hard_flag = False\<rparr>"]
    by (simp add: step_turn_def)
  note A = C5_out_of_range_accepted [of negative_psi CPhaseRuntime_init clock0 False,
      THEN conjunct1, rule_format, OF n]
  note B = C5_out_of_range_accepted [of negative_psi ?s1 clock0 False,
      THEN conjunct1, rule_format, OF n]
  note C = C5_out_of_range_accepted [of excessive_psi "final CPhaseRuntime_init recovering" clock0 False,
      THEN conjunct2, rule_format, OF x]
  have p1: "crisis_turns ?s1 = 1"
    using A c0 by simp
  have p2: "\<exists>a. alert (fst (step ?s1 clock0 negative_psi False)) = Some a \<and> alert_psi a = - 0.3"
    using B s1 v by simp
  have p3: "tier (fst (step (final CPhaseRuntime_init recovering) clock0 excessive_psi False)) = ''COHERENCE''"
    using C act rt inv by (auto simp: cp_inv_def)
  show ?thesis
    using p1 p2 p3 act C by blast
qed

section \<open>Properties of the trajectory store\<close>

lemma snapshots_update_call:
  "snapshots (update_call m c) = snapshots m @
     [\<lparr>snap_timestamp = call_now c, snap_E = call_E c, snap_I = call_I c, snap_O = call_O c,
       snap_P_align = call_P_align c, snap_psi = call_psi c,
       snap_dpsi_dt =
         (if snapshots m = [] then None
          else if call_now c - snap_timestamp (last (snapshots m)) > 0
          then Some ((call_psi c - snap_psi (last (snapshots m)))
                       / (call_now c - snap_timestamp (last (snapshots m))))
          else None)\<rparr>]"
  by (simp add: update_call_def update_def monitor_alert_def call_psi_def Let_def)

lemma run_updates_snoc: "run_updates m (cs @ [c]) = update_call (run_updates m cs) c"
  by (simp add: run_updates_def)

lemma run_snapshots:
  "length (snapshots (run_updates (PsiMonitor_init thr) cs)) = length cs
   \<and> (\<forall>k<length cs.
         snap_timestamp (snapshots (run_updates (PsiMonitor_init thr) cs) ! k) = call_now (cs ! k)
         \<and> snap_psi (snapshots (run_updates (PsiMonitor_init thr) cs) ! k) = call_psi (cs ! k)
         \<and> snap_dpsi_dt (snapshots (run_updates (PsiMonitor_init thr) cs) ! k)
             = (if k = 0 then None else backward_difference (cs ! (k - 1)) (cs ! k)))"
proof (induction cs rule: rev_induct)
  case Nil
  then show ?case by (simp add: run_updates_def PsiMonitor_init_def)
next
  case (snoc c cs)
  let ?m = "run_updates (PsiMonitor_init thr) cs"
  have len: "length (snapshots ?m) = length cs" using snoc.IH by simp
  have old: "\<And>k. k < length cs \<Longrightarrow>
      snap_timestamp (snapshots ?m ! k) = call_now (cs ! k)
      \<and> snap_psi (snapshots ?m ! k) = call_psi (cs ! k)
      \<and> snap_dpsi_dt (snapshots ?m ! k)
             = (if k = 0 then None else backward_difference (cs ! (k - 1)) (cs ! k))"
    using snoc.IH by simp
  have lastm: "cs \<noteq> [] \<Longrightarrow> snap_timestamp (last (snapshots ?m)) = call_now (last cs)
      \<and> snap_psi (last (snapshots ?m)) = call_psi (last cs)"
  proof -
    assume ne: "cs \<noteq> []"
    then have "snapshots ?m \<noteq> []" using len by auto
    then have "last (snapshots ?m) = snapshots ?m ! (length cs - 1)"
      using len by (simp add: last_conv_nth)
    moreover have "last cs = cs ! (length cs - 1)" using ne by (simp add: last_conv_nth)
    moreover have "length cs - 1 < length cs" using ne by simp
    ultimately show ?thesis using old by simp
  qed
  have emp: "snapshots ?m = [] \<longleftrightarrow> cs = []" using len by auto
  show ?case
  proof (intro conjI allI impI)
    show "length (snapshots (run_updates (PsiMonitor_init thr) (cs @ [c]))) = length (cs @ [c])"
      by (simp add: run_updates_snoc snapshots_update_call len)
  next
    fix k
    assume k: "k < length (cs @ [c])"
    show "snap_timestamp (snapshots (run_updates (PsiMonitor_init thr) (cs @ [c])) ! k)
            = call_now ((cs @ [c]) ! k)"
      using k old len by (cases "k < length cs")
        (simp_all add: run_updates_snoc snapshots_update_call nth_append less_Suc_eq)
    show "snap_psi (snapshots (run_updates (PsiMonitor_init thr) (cs @ [c])) ! k)
            = call_psi ((cs @ [c]) ! k)"
      using k old len by (cases "k < length cs")
        (simp_all add: run_updates_snoc snapshots_update_call nth_append less_Suc_eq)
    show "snap_dpsi_dt (snapshots (run_updates (PsiMonitor_init thr) (cs @ [c])) ! k)
            = (if k = 0 then None else backward_difference ((cs @ [c]) ! (k - 1)) ((cs @ [c]) ! k))"
    proof (cases "k < length cs")
      case True
      then have "k - 1 < length cs" by simp
      then show ?thesis
        using True old [OF True] len
        by (simp add: run_updates_snoc snapshots_update_call nth_append)
    next
      case False
      then have ke: "k = length cs" using k by simp
      show ?thesis
      proof (cases "cs = []")
        case True
        then show ?thesis using ke
          by (simp add: run_updates_def snapshots_update_call PsiMonitor_init_def)
      next
        case False
        then have "cs ! (length cs - 1) = last cs" by (simp add: last_conv_nth)
        then show ?thesis
          using ke False emp lastm [OF False] len
          by (simp add: run_updates_snoc snapshots_update_call nth_append
                backward_difference_def not_le not_less)
      qed
    qed
  qed
qed

text \<open>
  Claim C6. After any sequence of calls of \<open>update\<close> on a fresh monitor there is one
  snapshot per call, in order, holding the call's time and the product of its four
  components as psi. The first snapshot has \<open>dpsi_dt = None\<close>. Every later snapshot has
  the backward difference \<open>(psi_n - psi_{n-1}) / (t_n - t_{n-1})\<close> against the snapshot
  just before it when \<open>t_n - t_{n-1} > 0\<close>, and \<open>None\<close>, with no division, when
  \<open>t_n - t_{n-1} \<le> 0\<close>.
\<close>

theorem C6_backward_difference:
  "length (snapshots (run_updates (PsiMonitor_init thr) cs)) = length cs
   \<and> (\<forall>k<length cs.
         snap_timestamp (snapshots (run_updates (PsiMonitor_init thr) cs) ! k) = call_now (cs ! k)
         \<and> snap_psi (snapshots (run_updates (PsiMonitor_init thr) cs) ! k)
             = call_E (cs ! k) * call_I (cs ! k) * call_O (cs ! k) * call_P_align (cs ! k)
         \<and> snap_dpsi_dt (snapshots (run_updates (PsiMonitor_init thr) cs) ! k)
             = (if k = 0 then None
                else if call_now (cs ! k) - call_now (cs ! (k - 1)) \<le> 0 then None
                else Some ((call_psi (cs ! k) - call_psi (cs ! (k - 1)))
                            / (call_now (cs ! k) - call_now (cs ! (k - 1))))))"
  using run_snapshots [of thr cs] by (simp add: backward_difference_def call_psi_def)

theorem C6_backward_difference_witness:
  "snap_dpsi_dt (snapshots (run_updates (PsiMonitor_init 0.05) monitor_demo) ! 0) = None
   \<and> snap_dpsi_dt (snapshots (run_updates (PsiMonitor_init 0.05) monitor_demo) ! 1)
       = Some (- 0.1506)
   \<and> snap_dpsi_dt (snapshots (run_updates (PsiMonitor_init 0.05) monitor_demo) ! 2) = None"
proof -
  have len: "length monitor_demo = 3" by (simp add: monitor_demo_def)
  note T = C6_backward_difference [of "0.05" monitor_demo, THEN conjunct2, rule_format]
  have k0: "snap_dpsi_dt (snapshots (run_updates (PsiMonitor_init 0.05) monitor_demo) ! 0) = None"
    using T [of 0] len by simp
  have k1: "snap_dpsi_dt (snapshots (run_updates (PsiMonitor_init 0.05) monitor_demo) ! 1)
       = Some (- 0.1506)"
    using T [of 1] len by (simp add: monitor_demo_def call_psi_def)
  have k2: "snap_dpsi_dt (snapshots (run_updates (PsiMonitor_init 0.05) monitor_demo) ! 2) = None"
    using T [of 2] len by (simp add: monitor_demo_def call_psi_def)
  show ?thesis using k0 k1 k2 by blast
qed

section \<open>Properties of the coherence metric\<close>

lemma unit_product:
  fixes a b :: real
  assumes "0 \<le> a" "a \<le> 1" "0 \<le> b" "b \<le> 1"
  shows "0 \<le> a * b \<and> a * b \<le> 1"
  using assms by (simp add: mult_le_one)

lemma unit_product4:
  fixes a b c d :: real
  assumes "0 \<le> a \<and> a \<le> 1" "0 \<le> b \<and> b \<le> 1" "0 \<le> c \<and> c \<le> 1" "0 \<le> d \<and> d \<le> 1"
  shows "0 \<le> a * b * c * d \<and> a * b * c * d \<le> 1"
proof -
  have "0 \<le> a * b \<and> a * b \<le> 1" using assms unit_product by blast
  then have "0 \<le> a * b * c \<and> a * b * c \<le> 1" using assms unit_product by blast
  then show ?thesis using assms unit_product by blast
qed

lemma post_init_Inr_iff:
  "post_init s = Inr s' \<longleftrightarrow>
     s' = s \<and> 0 \<le> energy s \<and> energy s \<le> 1 \<and> 0 \<le> information s \<and> information s \<le> 1
     \<and> 0 \<le> order s \<and> order s \<le> 1 \<and> 0 \<le> p_align s \<and> p_align s \<le> 1"
  by (auto simp: post_init_def)

lemma post_init_Inl_iff:
  "(\<exists>e. post_init s = Inl e) \<longleftrightarrow>
     \<not> (0 \<le> energy s \<and> energy s \<le> 1 \<and> 0 \<le> information s \<and> information s \<le> 1
     \<and> 0 \<le> order s \<and> order s \<le> 1 \<and> 0 \<le> p_align s \<and> p_align s \<le> 1)"
  by (auto simp: post_init_def)

text \<open>
  Claim C7, as stated, fails in its last part. The claim has the construction of a record
  with a component outside [0,1] fail validation. That holds of \<open>Scene\<close>, whose
  \<open>__post_init__\<close> raises. \<open>PsiMonitor.update\<close>, where the claim's product is computed
  too, checks nothing: called with E = 1.5 it builds and stores the snapshot with
  \<open>E = 1.5\<close> and psi = 1.5 and returns 1.5.
\<close>

theorem C7_counterexample:
  "fst (update (PsiMonitor_init 0.05) 0 0 ''Baseline'' 1.5 1 1 1 None) = 1.5
   \<and> snapshots (snd (update (PsiMonitor_init 0.05) 0 0 ''Baseline'' 1.5 1 1 1 None))
       = [\<lparr>snap_timestamp = 0, snap_E = 1.5, snap_I = 1, snap_O = 1, snap_P_align = 1,
           snap_psi = 1.5, snap_dpsi_dt = None\<rparr>]"
  by (simp add: update_def PsiMonitor_init_def Let_def)

text \<open>
  Claim C7, amended. The metric is the product of the four components, in
  \<open>Scene.calculate_psi\<close> and in the value \<open>PsiMonitor.update\<close> returns and stores. For
  components in [0,1] it lies in [0,1], and it is 0 when any component is 0. A scene
  that passes \<open>__post_init__\<close> is the scene as given (nothing is clamped); a scene with
  any component outside [0,1] fails \<open>__post_init__\<close> with a \<open>ValueError\<close>, and only such
  a scene does; an energy out of range is the one named. \<open>PsiMonitor.update\<close> validates
  nothing: whatever the components, it appends the snapshot that holds them as given
  with their product as psi.
\<close>

theorem C7_psi_product_and_validation:
  "calculate_psi s = energy s * information s * order s * p_align s
   \<and> fst (update m now wall txt E I O' P meta) = E * I * O' * P
   \<and> (post_init s = Inr s' \<longrightarrow>
      s' = s \<and> 0 \<le> calculate_psi s' \<and> calculate_psi s' \<le> 1
      \<and> (energy s' = 0 \<or> information s' = 0 \<or> order s' = 0 \<or> p_align s' = 0
           \<longrightarrow> calculate_psi s' = 0))
   \<and> ((\<exists>v \<in> {energy s, information s, order s, p_align s}. v < 0 \<or> 1 < v)
        \<longleftrightarrow> (\<exists>e. post_init s = Inl e))
   \<and> (energy s < 0 \<or> 1 < energy s \<longrightarrow> post_init s = Inl (ValueError ''energy'' (energy s)))
   \<and> (0 \<le> E \<and> E \<le> 1 \<and> 0 \<le> I \<and> I \<le> 1 \<and> 0 \<le> O' \<and> O' \<le> 1 \<and> 0 \<le> P \<and> P \<le> 1 \<longrightarrow>
        0 \<le> fst (update m now wall txt E I O' P meta)
        \<and> fst (update m now wall txt E I O' P meta) \<le> 1
        \<and> (E = 0 \<or> I = 0 \<or> O' = 0 \<or> P = 0 \<longrightarrow> fst (update m now wall txt E I O' P meta) = 0))
   \<and> butlast (snapshots (snd (update m now wall txt E I O' P meta))) = snapshots m
   \<and> snap_E (last (snapshots (snd (update m now wall txt E I O' P meta)))) = E
   \<and> snap_I (last (snapshots (snd (update m now wall txt E I O' P meta)))) = I
   \<and> snap_O (last (snapshots (snd (update m now wall txt E I O' P meta)))) = O'
   \<and> snap_P_align (last (snapshots (snd (update m now wall txt E I O' P meta)))) = P
   \<and> snap_psi (last (snapshots (snd (update m now wall txt E I O' P meta)))) = E * I * O' * P"
proof -
  have e: "fst (update m now wall txt E I O' P meta) = E * I * O' * P"
    by (simp add: update_def Let_def)
  have c1: "post_init s = Inr s' \<longrightarrow>
      s' = s \<and> 0 \<le> calculate_psi s' \<and> calculate_psi s' \<le> 1
      \<and> (energy s' = 0 \<or> information s' = 0 \<or> order s' = 0 \<or> p_align s' = 0
           \<longrightarrow> calculate_psi s' = 0)"
  proof
    assume a: "post_init s = Inr s'"
    then have r: "s' = s \<and> 0 \<le> energy s \<and> energy s \<le> 1 \<and> 0 \<le> information s
       \<and> information s \<le> 1 \<and> 0 \<le> order s \<and> order s \<le> 1 \<and> 0 \<le> p_align s \<and> p_align s \<le> 1"
      by (simp add: post_init_Inr_iff)
    have "0 \<le> energy s * information s * order s * p_align s
          \<and> energy s * information s * order s * p_align s \<le> 1"
      using r by (intro unit_product4) simp_all
    then have b: "0 \<le> calculate_psi s' \<and> calculate_psi s' \<le> 1"
      using r by (simp add: calculate_psi_def)
    have z: "energy s' = 0 \<or> information s' = 0 \<or> order s' = 0 \<or> p_align s' = 0
           \<longrightarrow> calculate_psi s' = 0"
      by (auto simp: calculate_psi_def)
    from r b z show "s' = s \<and> 0 \<le> calculate_psi s' \<and> calculate_psi s' \<le> 1
      \<and> (energy s' = 0 \<or> information s' = 0 \<or> order s' = 0 \<or> p_align s' = 0
           \<longrightarrow> calculate_psi s' = 0)"
      by blast
  qed
  have c2: "(\<exists>v \<in> {energy s, information s, order s, p_align s}. v < 0 \<or> 1 < v)
        \<longleftrightarrow> (\<exists>e. post_init s = Inl e)"
    unfolding post_init_Inl_iff by auto
  have c3: "energy s < 0 \<or> 1 < energy s \<longrightarrow> post_init s = Inl (ValueError ''energy'' (energy s))"
    by (auto simp: post_init_def)
  have c4: "0 \<le> E \<and> E \<le> 1 \<and> 0 \<le> I \<and> I \<le> 1 \<and> 0 \<le> O' \<and> O' \<le> 1 \<and> 0 \<le> P \<and> P \<le> 1 \<longrightarrow>
        0 \<le> fst (update m now wall txt E I O' P meta)
        \<and> fst (update m now wall txt E I O' P meta) \<le> 1
        \<and> (E = 0 \<or> I = 0 \<or> O' = 0 \<or> P = 0 \<longrightarrow> fst (update m now wall txt E I O' P meta) = 0)"
  proof
    assume r: "0 \<le> E \<and> E \<le> 1 \<and> 0 \<le> I \<and> I \<le> 1 \<and> 0 \<le> O' \<and> O' \<le> 1 \<and> 0 \<le> P \<and> P \<le> 1"
    have "0 \<le> E * I * O' * P \<and> E * I * O' * P \<le> 1"
      using r by (intro unit_product4) simp_all
    moreover have "E = 0 \<or> I = 0 \<or> O' = 0 \<or> P = 0 \<longrightarrow> E * I * O' * P = 0"
      by auto
    ultimately show "0 \<le> fst (update m now wall txt E I O' P meta)
        \<and> fst (update m now wall txt E I O' P meta) \<le> 1
        \<and> (E = 0 \<or> I = 0 \<or> O' = 0 \<or> P = 0 \<longrightarrow> fst (update m now wall txt E I O' P meta) = 0)"
      unfolding e by blast
  qed
  have c5: "butlast (snapshots (snd (update m now wall txt E I O' P meta))) = snapshots m"
    "snap_E (last (snapshots (snd (update m now wall txt E I O' P meta)))) = E"
    "snap_I (last (snapshots (snd (update m now wall txt E I O' P meta)))) = I"
    "snap_O (last (snapshots (snd (update m now wall txt E I O' P meta)))) = O'"
    "snap_P_align (last (snapshots (snd (update m now wall txt E I O' P meta)))) = P"
    "snap_psi (last (snapshots (snd (update m now wall txt E I O' P meta)))) = E * I * O' * P"
    by (simp_all add: update_def monitor_alert_def Let_def)
  have c0: "calculate_psi s = energy s * information s * order s * p_align s"
    by (simp add: calculate_psi_def)
  from c0 e c1 c2 c3 c4 c5 show ?thesis by blast
qed

theorem C7_psi_product_and_validation_witness:
  "post_init scene_opening = Inr scene_opening
   \<and> calculate_psi scene_opening = 0.2016
   \<and> post_init (scene_opening\<lparr>p_align := 0\<rparr>) = Inr (scene_opening\<lparr>p_align := 0\<rparr>)
   \<and> calculate_psi (scene_opening\<lparr>p_align := 0\<rparr>) = 0
   \<and> post_init (scene_opening\<lparr>energy := 1.2\<rparr>) = Inl (ValueError ''energy'' 1.2)
   \<and> fst (update (PsiMonitor_init 0.05) 0 0 ''Baseline'' 0.9 0.9 0.8 0.9 None) = 0.5832
   \<and> fst (update (PsiMonitor_init 0.05) 0 0 ''Baseline'' 0.9 0.9 0.8 0 None) = 0
   \<and> snap_E (last (snapshots (snd (update (PsiMonitor_init 0.05) 0 0 ''Baseline'' 1.5 1 1 1 None))))
       = 1.5"
proof -
  have ok: "post_init scene_opening = Inr scene_opening"
    by (simp add: post_init_def scene_opening_def)
  have ok0: "post_init (scene_opening\<lparr>p_align := 0\<rparr>) = Inr (scene_opening\<lparr>p_align := 0\<rparr>)"
    by (simp add: post_init_def scene_opening_def)
  have z: "p_align (scene_opening\<lparr>p_align := 0\<rparr>) = 0" by simp
  have bad: "energy (scene_opening\<lparr>energy := 1.2\<rparr>) < 0 \<or> 1 < energy (scene_opening\<lparr>energy := 1.2\<rparr>)"
    by simp
  have rng: "(0::real) \<le> 0.9 \<and> (0.9::real) \<le> 1 \<and> (0::real) \<le> 0.9 \<and> (0.9::real) \<le> 1
     \<and> (0::real) \<le> 0.8 \<and> (0.8::real) \<le> 1 \<and> (0::real) \<le> 0 \<and> (0::real) \<le> 1"
    by simp
  note A = C7_psi_product_and_validation [of scene_opening]
  note B = C7_psi_product_and_validation [of "scene_opening\<lparr>p_align := 0\<rparr>" _ _ _ _ _ _ _ _ _
      "scene_opening\<lparr>p_align := 0\<rparr>"]
  note C = C7_psi_product_and_validation [of "scene_opening\<lparr>energy := 1.2\<rparr>"]
  note D = C7_psi_product_and_validation [of _ "PsiMonitor_init 0.05" 0 0 "''Baseline''" "0.9" "0.9" "0.8" 0 None]
  note E = C7_psi_product_and_validation [of _ "PsiMonitor_init 0.05" 0 0 "''Baseline''" "0.9" "0.9" "0.8" "0.9" None]
  note F = C7_psi_product_and_validation [of _ "PsiMonitor_init 0.05" 0 0 "''Baseline''" "1.5" 1 1 1 None]
  have v: "calculate_psi scene_opening = 0.2016"
    using A by (simp add: scene_opening_def)
  have b: "calculate_psi (scene_opening\<lparr>p_align := 0\<rparr>) = 0"
    using B ok0 z by blast
  have c: "post_init (scene_opening\<lparr>energy := 1.2\<rparr>) = Inl (ValueError ''energy'' 1.2)"
    using C bad by simp
  have d: "fst (update (PsiMonitor_init 0.05) 0 0 ''Baseline'' 0.9 0.9 0.8 0 None) = 0"
    using D rng by blast
  have e: "fst (update (PsiMonitor_init 0.05) 0 0 ''Baseline'' 0.9 0.9 0.8 0.9 None) = 0.5832"
    using E by simp
  have f: "snap_E (last (snapshots (snd (update (PsiMonitor_init 0.05) 0 0 ''Baseline'' 1.5 1 1 1 None))))
       = 1.5"
    using F by blast
  show ?thesis using ok v ok0 b c d e f by blast
qed

section \<open>Properties of the tier selector\<close>

lemma digits_small: "n < 10 \<Longrightarrow> digits n = [''0123456789'' ! n]"
  by (simp add: digits.simps)

lemma digits_large:
  "\<not> n < 10 \<Longrightarrow> digits n = digits (n div 10) @ [''0123456789'' ! (n mod 10)]"
  by (subst digits.simps) simp

lemma scale_down_step: "2 ^ 53 \<le> y \<Longrightarrow> scale_down y e = scale_down (y / 2) (e + 1)"
  by (subst scale_down.simps) simp

lemma scale_down_stop: "\<not> 2 ^ 53 \<le> y \<Longrightarrow> scale_down y e = (y, e)"
  by (subst scale_down.simps) simp

lemma scale_up_step:
  "y < 2 ^ 52 \<Longrightarrow> - 1074 < e \<Longrightarrow> scale_up y e = scale_up (2 * y) (e - 1)"
  by (subst scale_up.simps) simp

lemma scale_up_stop: "\<not> (y < 2 ^ 52 \<and> - 1074 < e) \<Longrightarrow> scale_up y e = (y, e)"
  by (subst scale_up.simps) (simp only: if_False)

lemma replicate_2: "replicate 2 c = [c, c]"
  by (simp add: numeral_2_eq_2)

lemmas fmt_defs = format_f_def binary64_def round_half_even_def Let_def
  scale_down_step scale_down_stop scale_up_step scale_up_stop digits_small digits_large
  replicate_2

text \<open>
  Decimals that lie on a rounding tie print by the side their float falls on, as in
  Python: \<open>format(0.015, '.2f')\<close> is \<open>0.01\<close>, \<open>format(0.0005, '.3f')\<close> is \<open>0.001\<close>,
  \<open>format(-0.0025, '.3f')\<close> is \<open>-0.003\<close>; a float that is itself a tie goes to even:
  \<open>format(0.125, '.2f')\<close> is \<open>0.12\<close>.
\<close>

lemma format_f_ties:
  "format_f False 2 0.015 = ''0.01''"
  "format_f False 3 0.0005 = ''0.001''"
  "format_f False 3 (- 0.0025) = ''-0.003''"
  "format_f False 2 0.125 = ''0.12''"
  "format_f False 2 0.375 = ''0.38''"
  by (simp_all add: fmt_defs)

lemma compose_rationale_plain:
  "\<not> list_ex snd flags \<Longrightarrow>
   compose_rationale tr psi dpsi_dt comps flags extra =
     ''Tier='' @ Tier_value tr @ '' | '' @ u_Psi @ ''='' @ format_f False 3 psi
     @ '' | d'' @ u_Psi @ ''/dt='' @ format_f True 3 dpsi_dt
     @ '' | E='' @ format_f False 2 (clamp01 (comp_get comps ''E'' 0))
     @ '', I='' @ format_f False 2 (clamp01 (comp_get comps ''I'' 0))
     @ '', O='' @ format_f False 2 (clamp01 (comp_get comps ''O'' 0))
     @ '', P_align='' @ format_f False 2 (clamp01 (comp_get comps ''P_align'' 0))
     @ '' | '' @ extra"
  by (simp add: compose_rationale_def Let_def)

lemma compose_rationale_flags:
  "list_ex snd flags \<Longrightarrow>
   compose_rationale tr psi dpsi_dt comps flags extra =
     ''Tier='' @ Tier_value tr @ '' | '' @ u_Psi @ ''='' @ format_f False 3 psi
     @ '' | d'' @ u_Psi @ ''/dt='' @ format_f True 3 dpsi_dt
     @ '' | E='' @ format_f False 2 (clamp01 (comp_get comps ''E'' 0))
     @ '', I='' @ format_f False 2 (clamp01 (comp_get comps ''I'' 0))
     @ '', O='' @ format_f False 2 (clamp01 (comp_get comps ''O'' 0))
     @ '', P_align='' @ format_f False 2 (clamp01 (comp_get comps ''P_align'' 0))
     @ '' | flags='' @ join '','' (map fst (filter snd flags))
     @ '' | '' @ extra"
  by (simp add: compose_rationale_def Let_def)

lemma decide_tier:
  "decision_tier (decide cfg psi dpsi_dt comps hard_flags tag) =
     (if needs_safety cfg psi dpsi_dt comps (case hard_flags of None \<Rightarrow> [] | Some f \<Rightarrow> f)
      then SAFETY
      else if needs_coherence cfg psi dpsi_dt comps (case hard_flags of None \<Rightarrow> [] | Some f \<Rightarrow> f)
      then COHERENCE else TRUTH)"
  by (simp add: decide_def make_safety_decision_def make_coherence_decision_def
        make_truth_decision_def Let_def)

lemma decide_rationale:
  "rationale (decide cfg psi dpsi_dt comps hard_flags tag) =
     compose_rationale (decision_tier (decide cfg psi dpsi_dt comps hard_flags tag))
       psi dpsi_dt comps (case hard_flags of None \<Rightarrow> [] | Some f \<Rightarrow> f)
       (case decision_tier (decide cfg psi dpsi_dt comps hard_flags tag) of
          SAFETY \<Rightarrow> ''Crisis threshold or explicit risk triggered. Normal reasoning suspended.''
        | COHERENCE \<Rightarrow> ''Low/stable '' @ u_Psi
            @ '' or falling purpose alignment indicates we should ''
            @ ''rehabilitate pattern before facts.''
        | TRUTH \<Rightarrow> u_Psi @ '' above caution band with no hard-risk flags; proceed with ''
            @ ''normal reasoning.'')"
  by (simp add: decide_def make_safety_decision_def make_coherence_decision_def
        make_truth_decision_def Let_def)

lemma decide_signals:
  "signals (decide cfg psi dpsi_dt comps hard_flags tag) =
     signals_dict cfg psi dpsi_dt comps (case hard_flags of None \<Rightarrow> [] | Some f \<Rightarrow> f) tag
       (decision_tier (decide cfg psi dpsi_dt comps hard_flags tag))"
  by (simp add: decide_def make_safety_decision_def make_coherence_decision_def
        make_truth_decision_def Let_def)

lemma decide_safety_iff:
  "decision_tier (decide cfg psi dpsi_dt comps hard_flags tag) = SAFETY \<longleftrightarrow>
     flag_get (case hard_flags of None \<Rightarrow> [] | Some f \<Rightarrow> f) ''explicit_self_harm''
     \<or> psi < crisis_threshold cfg
     \<or> (dpsi_dt \<le> rapid_decline cfg
         \<and> (comp_get comps ''P_align'' 1 < 0.10 \<or> comp_get comps ''I'' 1 < 0.10))"
  by (auto simp: decide_tier needs_safety_def Let_def)

lemma fmt3_007: "format_f False 3 0.07 = ''0.070''"
  by (simp add: fmt_defs)

lemma fmt3_m060: "format_f True 3 (- 0.60) = ''-0.600''"
  by (simp add: fmt_defs)

lemma fmt3_040: "format_f False 3 0.40 = ''0.400''"
  by (simp add: fmt_defs)

lemma fmt3_p005: "format_f True 3 0.05 = ''+0.050''"
  by (simp add: fmt_defs)

lemma fmt2_080: "format_f False 2 0.80 = ''0.80''"
  by (simp add: fmt_defs)

lemma fmt2_008: "format_f False 2 0.08 = ''0.08''"
  by (simp add: fmt_defs)

lemma fmt2_045: "format_f False 2 0.45 = ''0.45''"
  by (simp add: fmt_defs)

lemma fmt2_009: "format_f False 2 0.09 = ''0.09''"
  by (simp add: fmt_defs)

lemma fmt2_050: "format_f False 2 0.50 = ''0.50''"
  by (simp add: fmt_defs)

lemma fmt2_070: "format_f False 2 0.70 = ''0.70''"
  by (simp add: fmt_defs)

lemma fmt2_075: "format_f False 2 0.75 = ''0.75''"
  by (simp add: fmt_defs)

lemma fmt2_000: "format_f False 2 0 = ''0.00''"
  by (simp add: fmt_defs)

lemma sample3_comps:
  "clamp01 (comp_get sample3 ''E'' 0) = 0.80" "clamp01 (comp_get sample3 ''I'' 0) = 0.08"
  "clamp01 (comp_get sample3 ''O'' 0) = 0.45" "clamp01 (comp_get sample3 ''P_align'' 0) = 0.09"
  by (simp_all add: sample3_def comp_get_def clamp01_def)

lemma sample6_comps:
  "clamp01 (comp_get sample6 ''E'' 0) = 0.50" "clamp01 (comp_get sample6 ''I'' 0) = 0.70"
  "clamp01 (comp_get sample6 ''O'' 0) = 0.75" "clamp01 (comp_get sample6 ''P_align'' 0) = 0.80"
  by (simp_all add: sample6_def comp_get_def clamp01_def)

lemma missing_p_comps:
  "clamp01 (comp_get missing_p ''E'' 0) = 0.50" "clamp01 (comp_get missing_p ''I'' 0) = 0.70"
  "clamp01 (comp_get missing_p ''O'' 0) = 0.75" "clamp01 (comp_get missing_p ''P_align'' 0) = 0"
  by (simp_all add: missing_p_def comp_get_def clamp01_def)

lemma component_field:
  "format_f False 2 (clamp01 (comp_get comps k 0))
     = (case comps k of None \<Rightarrow> ''0.00'' | Some v \<Rightarrow> format_f False 2 (clamp01 v))"
  by (simp add: comp_get_def clamp01_def fmt2_000 split: option.split)

lemma sample3_rationale:
  "rationale (decide ACPConfig_default 0.07 (- 0.60) sample3 None (Some ''chat''))
     = ''Tier=SAFETY | '' @ u_Psi @ ''=0.070 | d'' @ u_Psi
       @ ''/dt=-0.600 | E=0.80, I=0.08, O=0.45, P_align=0.09 | ''
       @ ''Crisis threshold or explicit risk triggered. Normal reasoning suspended.''"
proof -
  have t: "decision_tier (decide ACPConfig_default 0.07 (- 0.60) sample3 None (Some ''chat''))
      = SAFETY"
    by (simp add: decide_safety_iff ACPConfig_default_def sample3_def comp_get_def)
  have nf: "\<not> list_ex snd (case None of None \<Rightarrow> [] | Some f \<Rightarrow> f)" by simp
  show ?thesis
    unfolding decide_rationale t compose_rationale_plain [OF nf]
      sample3_comps fmt3_007 fmt3_m060 fmt2_080 fmt2_008 fmt2_045 fmt2_009
    by simp
qed

subsection \<open>Hard flags\<close>

text \<open>
  Claim C3: the selected tier is \<open>SAFETY\<close> exactly when any hard flag of the supplied
  \<open>hard_flags\<close> is set, or psi is below the crisis threshold, or the decline is rapid
  with a low \<open>P_align\<close> or \<open>I\<close>. The code looks up one flag only,
  \<open>explicit_self_harm\<close> (lemma \<open>decide_safety_iff\<close>). On the sixth demo sample with
  the flag \<open>violence\<close> set, which the docstring of \<open>decide\<close> lists as a hard flag,
  \<open>decide\<close> returns tier \<open>TRUTH\<close>, and its rationale lists \<open>flags=violence\<close> next to
  the clause saying there are no hard-risk flags.
\<close>

theorem C3_other_hard_flag_not_safety:
  "decision_tier (decide ACPConfig_default 0.40 0.05 sample6 (Some [(''violence'', True)])
      (Some ''assistant'')) = TRUTH
   \<and> rationale (decide ACPConfig_default 0.40 0.05 sample6 (Some [(''violence'', True)])
      (Some ''assistant''))
     = ''Tier=TRUTH | '' @ u_Psi @ ''=0.400 | d'' @ u_Psi
       @ ''/dt=+0.050 | E=0.50, I=0.70, O=0.75, P_align=0.80 | flags=violence | ''
       @ u_Psi @ '' above caution band with no hard-risk flags; proceed with normal reasoning.''"
proof -
  have t: "decision_tier (decide ACPConfig_default 0.40 0.05 sample6 (Some [(''violence'', True)])
      (Some ''assistant'')) = TRUTH"
    by (simp add: decide_tier needs_safety_def needs_coherence_def flag_get_def comp_get_def
          ACPConfig_default_def sample6_def)
  have fl: "list_ex snd (case Some [(''violence'', True)] of None \<Rightarrow> [] | Some f \<Rightarrow> f)"
    by simp
  have r: "rationale (decide ACPConfig_default 0.40 0.05 sample6 (Some [(''violence'', True)])
      (Some ''assistant''))
     = ''Tier=TRUTH | '' @ u_Psi @ ''=0.400 | d'' @ u_Psi
       @ ''/dt=+0.050 | E=0.50, I=0.70, O=0.75, P_align=0.80 | flags=violence | ''
       @ u_Psi @ '' above caution band with no hard-risk flags; proceed with normal reasoning.''"
    unfolding decide_rationale t compose_rationale_flags [OF fl]
      sample6_comps fmt3_040 fmt3_p005 fmt2_050 fmt2_070 fmt2_075 fmt2_080
    by simp
  from t r show ?thesis by (rule conjI)
qed

subsection \<open>The rapid-decline scenario\<close>

text \<open>
  Claim C8: on psi = 0.07, dpsi\_dt = -0.60, P\_align = 0.09 with no hard flag and default
  thresholds, \<open>decide\<close> returns tier \<open>SAFETY\<close> and the rationale cites rapid decline
  combined with low purpose-alignment as the reason. On the third demo sample, which is
  this input, the tier is \<open>SAFETY\<close>, by the rapid decline with low \<open>P_align\<close>. The
  rationale is the string below: its explanatory clause is the one clause
  \<open>_make_safety_decision\<close> has, \<open>Crisis threshold or explicit risk triggered\<close>, which
  is false here, since psi is not below the crisis threshold and no flag is set; the
  words rapid, decline and purpose do not occur in it.
\<close>

theorem C8_rationale_wrong_reason:
  "decision_tier (decide ACPConfig_default 0.07 (- 0.60) sample3 None (Some ''chat'')) = SAFETY
   \<and> rationale (decide ACPConfig_default 0.07 (- 0.60) sample3 None (Some ''chat''))
     = ''Tier=SAFETY | '' @ u_Psi @ ''=0.070 | d'' @ u_Psi
       @ ''/dt=-0.600 | E=0.80, I=0.08, O=0.45, P_align=0.09 | ''
       @ ''Crisis threshold or explicit risk triggered. Normal reasoning suspended.''
   \<and> \<not> mentions ''rapid''
         (rationale (decide ACPConfig_default 0.07 (- 0.60) sample3 None (Some ''chat'')))
   \<and> \<not> mentions ''decline''
         (rationale (decide ACPConfig_default 0.07 (- 0.60) sample3 None (Some ''chat'')))
   \<and> \<not> mentions ''purpose''
         (rationale (decide ACPConfig_default 0.07 (- 0.60) sample3 None (Some ''chat'')))
   \<and> \<not> 0.07 < crisis_threshold ACPConfig_default
   \<and> \<not> flag_get [] ''explicit_self_harm''
   \<and> - 0.60 \<le> rapid_decline ACPConfig_default
   \<and> comp_get sample3 ''P_align'' 1.0 < 0.10"
proof -
  have t: "decision_tier (decide ACPConfig_default 0.07 (- 0.60) sample3 None (Some ''chat''))
      = SAFETY"
    by (simp add: decide_safety_iff ACPConfig_default_def sample3_def comp_get_def)
  have m1: "\<not> mentions ''rapid''
         (rationale (decide ACPConfig_default 0.07 (- 0.60) sample3 None (Some ''chat'')))"
    unfolding sample3_rationale by (simp add: u_Psi_def)
  have m2: "\<not> mentions ''decline''
         (rationale (decide ACPConfig_default 0.07 (- 0.60) sample3 None (Some ''chat'')))"
    unfolding sample3_rationale by (simp add: u_Psi_def)
  have m3: "\<not> mentions ''purpose''
         (rationale (decide ACPConfig_default 0.07 (- 0.60) sample3 None (Some ''chat'')))"
    unfolding sample3_rationale by (simp add: u_Psi_def)
  have c: "\<not> 0.07 < crisis_threshold ACPConfig_default"
    "\<not> flag_get [] ''explicit_self_harm''"
    "- 0.60 \<le> rapid_decline ACPConfig_default"
    "comp_get sample3 ''P_align'' 1.0 < 0.10"
    by (simp_all add: ACPConfig_default_def flag_get_def comp_get_def sample3_def)
  from t sample3_rationale m1 m2 m3 c show ?thesis by blast
qed

subsection \<open>Missing components\<close>

text \<open>
  Claim C9. A component key missing from the dict is treated in two ways. The decision
  logic reads a missing \<open>P_align\<close> or \<open>I\<close> as 1.0: \<open>_needs_safety\<close>,
  \<open>_needs_coherence\<close> and the tier of \<open>decide\<close> are what they are with the key set to
  1.0, so with both missing \<open>_needs_safety\<close> holds only by the flag or by psi below the
  crisis threshold. The rationale and the signals bundle read any missing component as
  0.0: they are what they are with the key set to 0.0, the metric reported for it is 0,
  and the rationale string, written out in full below, prints \<open>0.00\<close> for it. The
  reported values can therefore contradict the decision: on the sixth demo sample
  without \<open>P_align\<close> and with dpsi\_dt = -0.60 the tier is \<open>TRUTH\<close>, the reported
  \<open>P_align\<close> is 0 and the rationale reads \<open>P_align=0.00\<close>, while deciding on the
  reported value gives \<open>SAFETY\<close>.
\<close>

theorem C9_missing_component_defaults:
  "(comps ''P_align'' = None \<longrightarrow>
      needs_safety cfg psi dpsi_dt comps flags
        = needs_safety cfg psi dpsi_dt (comps(''P_align'' \<mapsto> 1.0)) flags
      \<and> needs_coherence cfg psi dpsi_dt comps flags
        = needs_coherence cfg psi dpsi_dt (comps(''P_align'' \<mapsto> 1.0)) flags
      \<and> decision_tier (decide cfg psi dpsi_dt comps hard_flags tag)
        = decision_tier (decide cfg psi dpsi_dt (comps(''P_align'' \<mapsto> 1.0)) hard_flags tag))
   \<and> (comps ''I'' = None \<longrightarrow>
      needs_safety cfg psi dpsi_dt comps flags
        = needs_safety cfg psi dpsi_dt (comps(''I'' \<mapsto> 1.0)) flags
      \<and> decision_tier (decide cfg psi dpsi_dt comps hard_flags tag)
        = decision_tier (decide cfg psi dpsi_dt (comps(''I'' \<mapsto> 1.0)) hard_flags tag))
   \<and> (comps ''P_align'' = None \<and> comps ''I'' = None \<longrightarrow>
      (needs_safety cfg psi dpsi_dt comps flags
         \<longleftrightarrow> flag_get flags ''explicit_self_harm'' \<or> psi < crisis_threshold cfg))
   \<and> (\<forall>k \<in> {''E'', ''I'', ''O'', ''P_align''}. comps k = None \<longrightarrow>
        compose_rationale tr psi dpsi_dt comps flags extra
          = compose_rationale tr psi dpsi_dt (comps(k \<mapsto> 0.0)) flags extra
        \<and> signals_dict cfg psi dpsi_dt comps flags tag tr
          = signals_dict cfg psi dpsi_dt (comps(k \<mapsto> 0.0)) flags tag tr)
   \<and> (comps ''E'' = None \<longrightarrow> m_E (metrics (signals (decide cfg psi dpsi_dt comps hard_flags tag))) = 0)
   \<and> (comps ''I'' = None \<longrightarrow> m_I (metrics (signals (decide cfg psi dpsi_dt comps hard_flags tag))) = 0)
   \<and> (comps ''O'' = None \<longrightarrow> m_O (metrics (signals (decide cfg psi dpsi_dt comps hard_flags tag))) = 0)
   \<and> (comps ''P_align'' = None \<longrightarrow>
        m_P_align (metrics (signals (decide cfg psi dpsi_dt comps hard_flags tag))) = 0)
   \<and> decision_tier (decide ACPConfig_default 0.40 (- 0.60) missing_p None None) = TRUTH
   \<and> decision_tier (decide ACPConfig_default 0.40 (- 0.60)
        (missing_p(''P_align'' \<mapsto>
           m_P_align (metrics (signals (decide ACPConfig_default 0.40 (- 0.60) missing_p None None)))))
        None None) = SAFETY
   \<and> compose_rationale tr psi dpsi_dt comps flags extra
       = ''Tier='' @ Tier_value tr @ '' | '' @ u_Psi @ ''='' @ format_f False 3 psi
         @ '' | d'' @ u_Psi @ ''/dt='' @ format_f True 3 dpsi_dt
         @ '' | E='' @ (case comps ''E'' of None \<Rightarrow> ''0.00''
                        | Some v \<Rightarrow> format_f False 2 (clamp01 v))
         @ '', I='' @ (case comps ''I'' of None \<Rightarrow> ''0.00''
                       | Some v \<Rightarrow> format_f False 2 (clamp01 v))
         @ '', O='' @ (case comps ''O'' of None \<Rightarrow> ''0.00''
                       | Some v \<Rightarrow> format_f False 2 (clamp01 v))
         @ '', P_align='' @ (case comps ''P_align'' of None \<Rightarrow> ''0.00''
                             | Some v \<Rightarrow> format_f False 2 (clamp01 v))
         @ (if list_ex snd flags
            then '' | flags='' @ join '','' (map fst (filter snd flags)) else [])
         @ '' | '' @ extra
   \<and> rationale (decide ACPConfig_default 0.40 (- 0.60) missing_p None None)
       = ''Tier=TRUTH | '' @ u_Psi @ ''=0.400 | d'' @ u_Psi
         @ ''/dt=-0.600 | E=0.50, I=0.70, O=0.75, P_align=0.00 | ''
         @ u_Psi @ '' above caution band with no hard-risk flags; proceed with normal reasoning.''"
proof -
  have a: "comps ''P_align'' = None \<longrightarrow>
      needs_safety cfg psi dpsi_dt comps flags
        = needs_safety cfg psi dpsi_dt (comps(''P_align'' \<mapsto> 1.0)) flags
      \<and> needs_coherence cfg psi dpsi_dt comps flags
        = needs_coherence cfg psi dpsi_dt (comps(''P_align'' \<mapsto> 1.0)) flags" for flags
    by (simp add: needs_safety_def needs_coherence_def comp_get_def)
  have b: "comps ''I'' = None \<longrightarrow>
      needs_safety cfg psi dpsi_dt comps flags
        = needs_safety cfg psi dpsi_dt (comps(''I'' \<mapsto> 1.0)) flags
      \<and> needs_coherence cfg psi dpsi_dt comps flags
        = needs_coherence cfg psi dpsi_dt (comps(''I'' \<mapsto> 1.0)) flags" for flags
    by (simp add: needs_safety_def needs_coherence_def comp_get_def)
  have a': "comps ''P_align'' = None \<longrightarrow>
      decision_tier (decide cfg psi dpsi_dt comps hard_flags tag)
        = decision_tier (decide cfg psi dpsi_dt (comps(''P_align'' \<mapsto> 1.0)) hard_flags tag)"
    using a unfolding decide_tier by simp
  have b': "comps ''I'' = None \<longrightarrow>
      decision_tier (decide cfg psi dpsi_dt comps hard_flags tag)
        = decision_tier (decide cfg psi dpsi_dt (comps(''I'' \<mapsto> 1.0)) hard_flags tag)"
    using b unfolding decide_tier by simp
  have c: "comps ''P_align'' = None \<and> comps ''I'' = None \<longrightarrow>
      (needs_safety cfg psi dpsi_dt comps flags
         \<longleftrightarrow> flag_get flags ''explicit_self_harm'' \<or> psi < crisis_threshold cfg)"
    by (simp add: needs_safety_def comp_get_def)
  have d: "\<forall>k \<in> {''E'', ''I'', ''O'', ''P_align''}. comps k = None \<longrightarrow>
        compose_rationale tr psi dpsi_dt comps flags extra
          = compose_rationale tr psi dpsi_dt (comps(k \<mapsto> 0.0)) flags extra
        \<and> signals_dict cfg psi dpsi_dt comps flags tag tr
          = signals_dict cfg psi dpsi_dt (comps(k \<mapsto> 0.0)) flags tag tr"
    by (simp add: compose_rationale_def signals_dict_def comp_get_def)
  have e: "comps ''E'' = None \<longrightarrow> m_E (metrics (signals (decide cfg psi dpsi_dt comps hard_flags tag))) = 0"
    "comps ''I'' = None \<longrightarrow> m_I (metrics (signals (decide cfg psi dpsi_dt comps hard_flags tag))) = 0"
    "comps ''O'' = None \<longrightarrow> m_O (metrics (signals (decide cfg psi dpsi_dt comps hard_flags tag))) = 0"
    "comps ''P_align'' = None \<longrightarrow>
        m_P_align (metrics (signals (decide cfg psi dpsi_dt comps hard_flags tag))) = 0"
    by (simp_all add: decide_signals signals_dict_def comp_get_def clamp01_def)
  have f: "decision_tier (decide ACPConfig_default 0.40 (- 0.60) missing_p None None) = TRUTH"
    by (simp add: decide_tier needs_safety_def needs_coherence_def flag_get_def comp_get_def
          ACPConfig_default_def missing_p_def)
  have "m_P_align (metrics (signals (decide ACPConfig_default 0.40 (- 0.60) missing_p None None))) = 0"
    by (simp add: decide_signals signals_dict_def comp_get_def clamp01_def missing_p_def)
  then have g: "decision_tier (decide ACPConfig_default 0.40 (- 0.60)
        (missing_p(''P_align'' \<mapsto>
           m_P_align (metrics (signals (decide ACPConfig_default 0.40 (- 0.60) missing_p None None)))))
        None None) = SAFETY"
    by (simp add: decide_safety_iff ACPConfig_default_def comp_get_def)
  have h: "compose_rationale tr psi dpsi_dt comps flags extra
       = ''Tier='' @ Tier_value tr @ '' | '' @ u_Psi @ ''='' @ format_f False 3 psi
         @ '' | d'' @ u_Psi @ ''/dt='' @ format_f True 3 dpsi_dt
         @ '' | E='' @ (case comps ''E'' of None \<Rightarrow> ''0.00''
                        | Some v \<Rightarrow> format_f False 2 (clamp01 v))
         @ '', I='' @ (case comps ''I'' of None \<Rightarrow> ''0.00''
                       | Some v \<Rightarrow> format_f False 2 (clamp01 v))
         @ '', O='' @ (case comps ''O'' of None \<Rightarrow> ''0.00''
                       | Some v \<Rightarrow> format_f False 2 (clamp01 v))
         @ '', P_align='' @ (case comps ''P_align'' of None \<Rightarrow> ''0.00''
                             | Some v \<Rightarrow> format_f False 2 (clamp01 v))
         @ (if list_ex snd flags
            then '' | flags='' @ join '','' (map fst (filter snd flags)) else [])
         @ '' | '' @ extra"
  proof (cases "list_ex snd flags")
    case True
    show ?thesis
      unfolding compose_rationale_flags [OF True] component_field using True by simp
  next
    case False
    show ?thesis
      unfolding compose_rationale_plain [OF False] component_field using False by simp
  qed
  have nf: "\<not> list_ex snd (case None of None \<Rightarrow> [] | Some f \<Rightarrow> f)" by simp
  have k: "rationale (decide ACPConfig_default 0.40 (- 0.60) missing_p None None)
       = ''Tier=TRUTH | '' @ u_Psi @ ''=0.400 | d'' @ u_Psi
         @ ''/dt=-0.600 | E=0.50, I=0.70, O=0.75, P_align=0.00 | ''
         @ u_Psi @ '' above caution band with no hard-risk flags; proceed with normal reasoning.''"
    unfolding decide_rationale f compose_rationale_plain [OF nf]
      missing_p_comps fmt3_040 fmt3_m060 fmt2_050 fmt2_070 fmt2_075 fmt2_000
    by simp
  from a a' b b' c d e f g h k show ?thesis by blast
qed

theorem C9_missing_component_defaults_witness:
  "missing_p ''P_align'' = None
   \<and> decision_tier (decide ACPConfig_default 0.40 (- 0.60) missing_p None None) = TRUTH
   \<and> m_P_align (metrics (signals (decide ACPConfig_default 0.40 (- 0.60) missing_p None None))) = 0
   \<and> decision_tier (decide ACPConfig_default 0.40 (- 0.60) (missing_p(''P_align'' \<mapsto> 0)) None None)
       = SAFETY
   \<and> compose_rationale TRUTH 0.40 (- 0.60) missing_p [] ''.''
       = ''Tier=TRUTH | '' @ u_Psi @ ''=0.400 | d'' @ u_Psi
         @ ''/dt=-0.600 | E=0.50, I=0.70, O=0.75, P_align=0.00 | .''
   \<and> rationale (decide ACPConfig_default 0.40 (- 0.60) missing_p None None)
       = ''Tier=TRUTH | '' @ u_Psi @ ''=0.400 | d'' @ u_Psi
         @ ''/dt=-0.600 | E=0.50, I=0.70, O=0.75, P_align=0.00 | ''
         @ u_Psi @ '' above caution band with no hard-risk flags; proceed with normal reasoning.''"
proof -
  have m: "missing_p ''P_align'' = None"
    by (simp add: missing_p_def)
  have look: "missing_p ''E'' = Some 0.50" "missing_p ''I'' = Some 0.70"
    "missing_p ''O'' = Some 0.75"
    by (simp_all add: missing_p_def)
  have cl: "clamp01 0.50 = 0.50" "clamp01 0.70 = 0.70" "clamp01 0.75 = 0.75"
    by (simp_all add: clamp01_def)
  note T = C9_missing_component_defaults
    [of missing_p ACPConfig_default "0.40" "- 0.60" "[]" None None TRUTH "''.''"]
  have t1: "decision_tier (decide ACPConfig_default 0.40 (- 0.60) missing_p None None) = TRUTH"
    using T by blast
  have t3: "m_P_align (metrics (signals (decide ACPConfig_default 0.40 (- 0.60) missing_p None None))) = 0"
    using T m by blast
  have t4: "decision_tier (decide ACPConfig_default 0.40 (- 0.60) (missing_p(''P_align'' \<mapsto> 0)) None None)
       = SAFETY"
    using T t3 by simp
  note t5 = T [THEN conjunct2, THEN conjunct2, THEN conjunct2, THEN conjunct2,
      THEN conjunct2, THEN conjunct2, THEN conjunct2, THEN conjunct2, THEN conjunct2,
      THEN conjunct2, THEN conjunct1]
  have t6: "compose_rationale TRUTH 0.40 (- 0.60) missing_p [] ''.''
       = ''Tier=TRUTH | '' @ u_Psi @ ''=0.400 | d'' @ u_Psi
         @ ''/dt=-0.600 | E=0.50, I=0.70, O=0.75, P_align=0.00 | .''"
    unfolding t5 m look option.case cl fmt3_040 fmt3_m060 fmt2_050 fmt2_070 fmt2_075
    by simp
  have t7: "rationale (decide ACPConfig_default 0.40 (- 0.60) missing_p None None)
       = ''Tier=TRUTH | '' @ u_Psi @ ''=0.400 | d'' @ u_Psi
         @ ''/dt=-0.600 | E=0.50, I=0.70, O=0.75, P_align=0.00 | ''
         @ u_Psi @ '' above caution band with no hard-risk flags; proceed with normal reasoning.''"
    using T by blast
  from m t1 t3 t4 t6 t7 show ?thesis by blast
qed

end
